theory Spec2Isabelle
  imports Main
begin

section \<open>Resolution states, errors and the transition context\<close>

text \<open>
  The string enum \<^verbatim>\<open>ResolutionState\<close> of the resolution service. The state machine
  service receives its states as the enum's string values (\<^verbatim>\<open>'created'\<close>,
  \<^verbatim>\<open>'detecting'\<close>, ...); each constructor stands for the value of the same name.
\<close>

datatype ResolutionState =
    CREATED
  | DETECTING
  | EVIDENCE_GATHERING
  | PROPOSING
  | LIVENESS
  | MONITORING
  | DISPUTED
  | ARBITRATION
  | RESOLVED
  | SETTLED

text \<open>
  Every \<^verbatim>\<open>throw new Error(...)\<close> of the sources and every rejection of an external
  call is a value of this type.
  \<^item> \<open>InvalidTransition c t\<close>: \<^verbatim>\<open>Invalid transition from c to t\<close>;
  \<^item> \<open>ConditionNotMet c t\<close>: \<^verbatim>\<open>Transition condition not met: c -> t\<close>;
  \<^item> \<open>FinalizationConditionsNotMet\<close>: \<^verbatim>\<open>Finalization conditions not met\<close>;
  \<^item> \<open>EventNotResolved\<close>: \<^verbatim>\<open>Event not in resolved state\<close>;
  \<^item> \<open>ContractNotLoaded\<close>: \<^verbatim>\<open>Proposal contract not loaded\<close>, \<^verbatim>\<open>Oracle registry not loaded\<close>;
  \<^item> \<open>ChainError\<close>, \<open>HttpError\<close>: a rejected chain call or HTTP request;
  \<^item> \<open>JsonError\<close>: \<^verbatim>\<open>JSON.parse\<close> of a cached text that is not of the expected shape.
\<close>

datatype error =
    InvalidTransition ResolutionState ResolutionState
  | ConditionNotMet ResolutionState ResolutionState
  | FinalizationConditionsNotMet
  | EventNotResolved
  | ContractNotLoaded string
  | ChainError string
  | HttpError string
  | JsonError string

record ResolutionContext =
  eventId :: string
  proposalId :: "string option"
  currentState :: ResolutionState
  metadata :: "(string \<times> string) list"
  timestamp :: int

section \<open>The state machine service\<close>

text \<open>
  \<^verbatim>\<open>interface StateTransition { from: string[]; to: string; condition?; action? }\<close>.
  A condition is a pure predicate on the context. An action is asynchronous, may mutate
  the context it is given and may reject: it returns the error it threw (if any) and the
  context as it left it.
\<close>

record StateTransition =
  from' :: "ResolutionState list"
  to' :: ResolutionState
  condition :: "(ResolutionContext \<Rightarrow> bool) option"
  action :: "(ResolutionContext \<Rightarrow> error option \<times> ResolutionContext) option"

type_synonym transition_table = "(ResolutionState \<times> StateTransition list) list"

definition edge :: "ResolutionState \<Rightarrow> ResolutionState \<Rightarrow> StateTransition" where
  "edge f t = \<lparr>from' = [f], to' = t, condition = None, action = None\<rparr>"

text \<open>The private field \<^verbatim>\<open>transitions\<close>: a \<^verbatim>\<open>Map\<close> built from seven entries, in this order.\<close>

definition transitions :: transition_table where
  "transitions =
    [(CREATED, [edge CREATED DETECTING, edge CREATED EVIDENCE_GATHERING]),
     (DETECTING, [edge DETECTING PROPOSING, edge DETECTING EVIDENCE_GATHERING]),
     (PROPOSING, [edge PROPOSING LIVENESS]),
     (LIVENESS, [edge LIVENESS DISPUTED, edge LIVENESS MONITORING, edge LIVENESS RESOLVED]),
     (DISPUTED, [edge DISPUTED ARBITRATION, edge DISPUTED LIVENESS]),
     (ARBITRATION, [edge ARBITRATION RESOLVED, edge ARBITRATION LIVENESS]),
     (RESOLVED, [edge RESOLVED SETTLED])]"

text \<open>
  \<^verbatim>\<open>this.transitions.get(targetState) || []\<close>. The table is the list of entries the
  \<^verbatim>\<open>Map\<close> was built from; \<^verbatim>\<open>new Map(entries)\<close> keeps the last entry of a repeated key, so
  the list is read from its end.
\<close>

definition validTransitionsFor :: "transition_table \<Rightarrow> ResolutionState \<Rightarrow> StateTransition list" where
  "validTransitionsFor tbl targetState =
     (case map_of (rev tbl) targetState of None \<Rightarrow> [] | Some ts \<Rightarrow> ts)"

text \<open>
  \<^verbatim>\<open>canTransition(currentState, targetState)\<close>: the table is read at the key
  \<^verbatim>\<open>targetState\<close>, and an entry is accepted when its \<^verbatim>\<open>from\<close> list includes
  \<^verbatim>\<open>currentState\<close>. The \<^verbatim>\<open>to\<close> field is not read. The first argument is the
  service's table.
\<close>

definition canTransition :: "transition_table \<Rightarrow> ResolutionState \<Rightarrow> ResolutionState \<Rightarrow> bool" where
  "canTransition tbl cur targetState =
     list_ex (\<lambda>t. cur \<in> set (from' t)) (validTransitionsFor tbl targetState)"

text \<open>
  The three steps of \<^verbatim>\<open>transition\<close>:
  \<^verbatim>\<open>validTransitions.find((t) => t.from.includes(currentState))\<close>,
  \<^verbatim>\<open>transition.condition && !transition.condition(context)\<close> and
  \<^verbatim>\<open>if (transition.action) await transition.action(context)\<close>.
\<close>

definition findTransition ::
  "transition_table \<Rightarrow> ResolutionState \<Rightarrow> ResolutionState \<Rightarrow> StateTransition option" where
  "findTransition tbl cur targetState =
     find (\<lambda>t. cur \<in> set (from' t)) (validTransitionsFor tbl targetState)"

definition conditionFails :: "StateTransition \<Rightarrow> ResolutionContext \<Rightarrow> bool" where
  "conditionFails t ctx = (case condition t of None \<Rightarrow> False | Some c \<Rightarrow> \<not> c ctx)"

definition runAction ::
  "StateTransition \<Rightarrow> ResolutionContext \<Rightarrow> error option \<times> ResolutionContext" where
  "runAction t ctx = (case action t of None \<Rightarrow> (None, ctx) | Some a \<Rightarrow> a ctx)"

text \<open>
  \<^verbatim>\<open>transition(context, targetState)\<close>. The context is mutated in place, so the
  result is the error thrown (if any) together with the context as the call left it.
\<close>

definition transition ::
  "transition_table \<Rightarrow> ResolutionContext \<Rightarrow> ResolutionState \<Rightarrow> error option \<times> ResolutionContext" where
  "transition tbl ctx targetState =
     (let cur = currentState ctx in
      case findTransition tbl cur targetState of
        None \<Rightarrow> (Some (InvalidTransition cur targetState), ctx)
      | Some t \<Rightarrow>
          if conditionFails t ctx
          then (Some (ConditionNotMet cur targetState), ctx)
          else
            (case runAction t ctx of
               (Some e, ctx') \<Rightarrow> (Some e, ctx')
             | (None, ctx') \<Rightarrow> (None, ctx'\<lparr>currentState := targetState\<rparr>)))"

section \<open>The world of the resolution service\<close>

text \<open>
  The JSON documents the service reads through \<^verbatim>\<open>any\<close>: an event of the event-manager
  peer (\<^verbatim>\<open>event.status\<close>, \<^verbatim>\<open>event.metadata\<close>, which may be absent) and a proposal of
  the proposal peer (\<^verbatim>\<open>proposal.proposalId\<close>, \<^verbatim>\<open>proposal.eventId\<close>,
  \<^verbatim>\<open>proposal.status\<close>, \<^verbatim>\<open>proposal.livenessExpiry\<close>). Only the fields the service reads
  are kept. A cached text is the \<^verbatim>\<open>JSON.stringify\<close> of one of the two.
\<close>

record event =
  e_status :: ResolutionState
  e_metadata :: "(string \<times> string) list option"

record proposal =
  p_proposalId :: string
  p_eventId :: string
  p_status :: string
  p_livenessExpiry :: int

datatype json = JEvent event | JProposal proposal

text \<open>A job of a Bull queue: its name, its payload (the proposalId or eventId) and its options.\<close>

datatype job_state = Delayed | Waiting | Active | Completed | Failed

record job =
  job_id :: nat
  job_name :: string
  job_data :: string
  job_state :: job_state
  job_delay :: int
  job_attempts :: nat
  job_backoff :: int

text \<open>
  What the service does to the outside, in the order it does it: HTTP requests to the
  peers, transactions sent by the blockchain service, cache writes, queue operations and
  \<^verbatim>\<open>logger.error\<close> lines (the message prefix and the error). \<^verbatim>\<open>logger.log\<close> lines are
  not recorded.
\<close>

datatype effect =
    HttpGetEvent string
  | HttpPatchEvent string ResolutionState int
  | HttpGetProposal string
  | HttpGetDisputes string
  | HttpPostDistribute string
  | HttpPostNotifyArbitrators string string
  | TxFinalizeProposal string
  | TxSettleEvent string
  | CacheSet string json int
  | CacheDelete string
  | QueueAdd string string
  | JobRemove nat
  | LogError string error

text \<open>
  The mutable world: the clock read by \<^verbatim>\<open>Date.now()\<close> (milliseconds; it stands still
  during one operation), the cache (key, value, expiry time), the two queues, the next
  job id, and the trace of effects issued so far.
\<close>

record world =
  now :: int
  cache :: "(string \<times> json \<times> int) list"
  livenessQueue :: "job list"
  settlementQueue :: "job list"
  nextJobId :: nat
  trace :: "effect list"

text \<open>
  The answers of the outside: each HTTP peer and each contract call either rejects with
  an error or returns its data. \<open>contracts P name\<close> says whether the blockchain service
  has the contract \<open>name\<close> loaded.
\<close>

record peers =
  getEvent :: "string \<Rightarrow> error + event"
  patchEvent :: "string \<Rightarrow> ResolutionState \<Rightarrow> error + unit"
  getProposal :: "string \<Rightarrow> error + proposal"
  getDisputes :: "string \<Rightarrow> error + string list"
  postDistribute :: "string \<Rightarrow> error + unit"
  postNotifyArbitrators :: "string \<Rightarrow> string \<Rightarrow> error + unit"
  contracts :: "string \<Rightarrow> bool"
  contract_finalizeProposal :: "string \<Rightarrow> error + string"
  contract_settleEvent :: "string \<Rightarrow> error + string"

text \<open>
  An asynchronous operation: it runs on the world and either throws or returns a value;
  the world it leaves is returned in both cases. \<open>await m f\<close> is
  \<^verbatim>\<open>const x = await m; f(x)\<close>, \<open>try_catch m h\<close> is \<^verbatim>\<open>try { m } catch (error) { h(error) }\<close>.
\<close>

type_synonym 'a op = "world \<Rightarrow> (error + 'a) \<times> world"

definition ret :: "'a \<Rightarrow> 'a op" where
  "ret x w = (Inr x, w)"

definition throw :: "error \<Rightarrow> 'a op" where
  "throw e w = (Inl e, w)"

definition await :: "'a op \<Rightarrow> ('a \<Rightarrow> 'b op) \<Rightarrow> 'b op" where
  "await m f w = (case m w of (Inl e, w') \<Rightarrow> (Inl e, w') | (Inr x, w') \<Rightarrow> f x w')"

definition try_catch :: "'a op \<Rightarrow> (error \<Rightarrow> 'a op) \<Rightarrow> 'a op" where
  "try_catch m h w = (case m w of (Inl e, w') \<Rightarrow> h e w' | (Inr x, w') \<Rightarrow> (Inr x, w'))"

definition emit :: "effect \<Rightarrow> unit op" where
  "emit e w = (Inr (), w\<lparr>trace := trace w @ [e]\<rparr>)"

text \<open>An external call: the request is issued, then the outside answers.\<close>

definition request :: "effect \<Rightarrow> (error + 'a) \<Rightarrow> 'a op" where
  "request e answer w = (answer, w\<lparr>trace := trace w @ [e]\<rparr>)"

definition logger_error :: "string \<Rightarrow> error \<Rightarrow> unit op" where
  "logger_error msg e = emit (LogError msg e)"

text \<open>The effects issued between two worlds of one run.\<close>

definition issued :: "world \<Rightarrow> world \<Rightarrow> effect list" where
  "issued w w' = drop (length (trace w)) (trace w')"

subsection \<open>The cache adapter\<close>

text \<open>
  Modelled from the spec: the cache service (\<^verbatim>\<open>cache.service\<close>) is not among the
  sources. The spec gives it four operations, \<^verbatim>\<open>get(key)\<close>, \<^verbatim>\<open>set(key, value, ttlSeconds)\<close>,
  \<^verbatim>\<open>delete(key)\<close> and \<^verbatim>\<open>keys(pattern)\<close>, over a key/value store with TTL, with
  glob-style patterns (\<^verbatim>\<open>prefix:*:suffix\<close>) in which \<^verbatim>\<open>*\<close> stands for any run of
  characters. An entry is live until its expiry time; no entry is evicted earlier.
\<close>

fun glob_match :: "string \<Rightarrow> string \<Rightarrow> bool" where
  "glob_match [] s = (s = [])"
| "glob_match (p # ps) [] = (p = CHR ''*'' \<and> glob_match ps [])"
| "glob_match (p # ps) (c # cs) =
     (if p = CHR ''*'' then glob_match ps (c # cs) \<or> glob_match (p # ps) cs
      else p = c \<and> glob_match ps cs)"

definition cache_get :: "string \<Rightarrow> world \<Rightarrow> json option" where
  "cache_get key w =
     (case map_of (cache w) key of
        None \<Rightarrow> None
      | Some (v, expiry) \<Rightarrow> if now w < expiry then Some v else None)"

definition cache_set :: "string \<Rightarrow> json \<Rightarrow> int \<Rightarrow> unit op" where
  "cache_set key v ttlSeconds w =
     (Inr (), w\<lparr>cache := (key, v, now w + ttlSeconds * 1000) # filter (\<lambda>e. fst e \<noteq> key) (cache w),
               trace := trace w @ [CacheSet key v ttlSeconds]\<rparr>)"

definition cache_delete :: "string \<Rightarrow> unit op" where
  "cache_delete key w =
     (Inr (), w\<lparr>cache := filter (\<lambda>e. fst e \<noteq> key) (cache w),
               trace := trace w @ [CacheDelete key]\<rparr>)"

definition cache_keys :: "string \<Rightarrow> world \<Rightarrow> string list" where
  "cache_keys pattern w =
     map fst (filter (\<lambda>e. glob_match pattern (fst e) \<and> now w < snd (snd e)) (cache w))"

text \<open>
  \<^verbatim>\<open>JSON.parse(cached)\<close> of a text that the matching \<^verbatim>\<open>JSON.stringify\<close> wrote gives
  the document back. The service writes events only under event keys and proposals only
  under proposal keys. A document of the other kind under a key (which only a foreign
  writer of the cache could put there) has no typed reading: the source would read the
  fields off the untyped object, the model stops with \<open>JsonError\<close>.
\<close>

definition parse_event :: "json \<Rightarrow> error + event" where
  "parse_event j = (case j of JEvent e \<Rightarrow> Inr e | JProposal p \<Rightarrow> Inl (JsonError ''not an event''))"

definition parse_proposal :: "json \<Rightarrow> error + proposal" where
  "parse_proposal j = (case j of JProposal p \<Rightarrow> Inr p | JEvent e \<Rightarrow> Inl (JsonError ''not a proposal''))"

subsection \<open>The blockchain service\<close>

text \<open>
  \<^verbatim>\<open>BlockchainService.finalizeProposal\<close> and \<^verbatim>\<open>BlockchainService.settleEvent\<close>: the
  contract must be loaded; the transaction is sent and its receipt awaited (one answer
  of the outside); an error is logged and thrown again. \<^verbatim>\<open>settleEvent\<close> hashes the
  eventId with \<^verbatim>\<open>ethers.id\<close> before the call; the trace names the transaction by the
  eventId.
\<close>

definition BlockchainService_finalizeProposal :: "peers \<Rightarrow> string \<Rightarrow> string op" where
  "BlockchainService_finalizeProposal P pid =
     try_catch
       (if \<not> contracts P ''proposalManager''
        then throw (ContractNotLoaded ''Proposal contract not loaded'')
        else request (TxFinalizeProposal pid) (contract_finalizeProposal P pid))
       (\<lambda>error. await (logger_error ''Failed to finalize proposal'' error) (\<lambda>_. throw error))"

definition BlockchainService_settleEvent :: "peers \<Rightarrow> string \<Rightarrow> string op" where
  "BlockchainService_settleEvent P eid =
     try_catch
       (if \<not> contracts P ''oracleRegistry''
        then throw (ContractNotLoaded ''Oracle registry not loaded'')
        else request (TxSettleEvent eid) (contract_settleEvent P eid))
       (\<lambda>error. await (logger_error ''Failed to settle event'' error) (\<lambda>_. throw error))"

section \<open>The resolution service\<close>

subsection \<open>Reads and writes of the peers\<close>

text \<open>
  The cache keys \<^verbatim>\<open>`event:${eventId}`\<close> and \<^verbatim>\<open>`proposal:${proposalId}`\<close>, and the
  pattern \<^verbatim>\<open>`proposal:*:${eventId}`\<close> of the cleanup's scan.
\<close>

definition eventKey :: "string \<Rightarrow> string" where
  "eventKey eid = ''event:'' @ eid"

definition proposalKey :: "string \<Rightarrow> string" where
  "proposalKey pid = ''proposal:'' @ pid"

definition proposalPattern :: "string \<Rightarrow> string" where
  "proposalPattern eid = ''proposal:*:'' @ eid"

text \<open>\<^verbatim>\<open>fetchEventData\<close>: the cache first; on a miss the event-manager peer, then the cache is filled.\<close>

definition fetchEventData :: "peers \<Rightarrow> string \<Rightarrow> event op" where
  "fetchEventData P eid w =
     (let cacheKey = eventKey eid in
      case cache_get cacheKey w of
        Some cached \<Rightarrow> (parse_event cached, w)
      | None \<Rightarrow>
          await (request (HttpGetEvent eid) (getEvent P eid)) (\<lambda>data.
          await (cache_set cacheKey (JEvent data) 300) (\<lambda>_.
          ret data)) w)"

definition fetchProposalData :: "peers \<Rightarrow> string \<Rightarrow> proposal op" where
  "fetchProposalData P pid w =
     (let cacheKey = proposalKey pid in
      case cache_get cacheKey w of
        Some cached \<Rightarrow> (parse_proposal cached, w)
      | None \<Rightarrow>
          await (request (HttpGetProposal pid) (getProposal P pid)) (\<lambda>data.
          await (cache_set cacheKey (JProposal data) 300) (\<lambda>_.
          ret data)) w)"

definition fetchProposalDisputes :: "peers \<Rightarrow> string \<Rightarrow> string list op" where
  "fetchProposalDisputes P pid = request (HttpGetDisputes pid) (getDisputes P pid)"

definition updateEventState :: "peers \<Rightarrow> string \<Rightarrow> ResolutionState \<Rightarrow> unit op" where
  "updateEventState P eid state w =
     await (request (HttpPatchEvent eid state (now w)) (patchEvent P eid state)) (\<lambda>_.
     cache_delete (eventKey eid)) w"

subsection \<open>Side channels\<close>

definition distributeRewards :: "peers \<Rightarrow> string \<Rightarrow> unit op" where
  "distributeRewards P eid =
     try_catch
       (request (HttpPostDistribute eid) (postDistribute P eid))
       (\<lambda>error. logger_error ''Failed to distribute rewards'' error)"

definition notifyArbitrators :: "peers \<Rightarrow> string \<Rightarrow> string \<Rightarrow> unit op" where
  "notifyArbitrators P pid disputeData =
     try_catch
       (request (HttpPostNotifyArbitrators pid disputeData) (postNotifyArbitrators P pid disputeData))
       (\<lambda>error. logger_error ''Failed to notify arbitrators'' error)"

subsection \<open>Queues\<close>

text \<open>\<^verbatim>\<open>livenessQueue.getJobs(['delayed', 'waiting'])\<close>\<close>

definition getJobs :: "job_state list \<Rightarrow> job list \<Rightarrow> job list" where
  "getJobs states q = filter (\<lambda>j. job_state j \<in> set states) q"

text \<open>\<^verbatim>\<open>job.remove()\<close> takes the job of that id out of the liveness queue.\<close>

definition job_remove :: "job \<Rightarrow> world \<Rightarrow> world" where
  "job_remove j w =
     w\<lparr>livenessQueue := filter (\<lambda>x. job_id x \<noteq> job_id j) (livenessQueue w),
       trace := trace w @ [JobRemove (job_id j)]\<rparr>"

text \<open>The loop of \<^verbatim>\<open>pauseLivenessMonitoring\<close> over the jobs it was given.\<close>

fun removeJobsOf :: "string \<Rightarrow> job list \<Rightarrow> world \<Rightarrow> world" where
  "removeJobsOf pid [] w = w"
| "removeJobsOf pid (j # js) w =
     removeJobsOf pid js (if job_data j = pid then job_remove j w else w)"

definition pauseLivenessMonitoring :: "string \<Rightarrow> unit op" where
  "pauseLivenessMonitoring pid w =
     (let jobs = getJobs [Delayed, Waiting] (livenessQueue w)
      in (Inr (), removeJobsOf pid jobs w))"

text \<open>
  \<^verbatim>\<open>settlementQueue.add('settle-event', { eventId }, { delay: 60000, attempts: 5,
  backoff: { type: 'exponential', delay: 10000 } })\<close>
\<close>

definition scheduleSettlement :: "string \<Rightarrow> unit op" where
  "scheduleSettlement eid w =
     (Inr (),
      w\<lparr>settlementQueue := settlementQueue w @
           [\<lparr>job_id = nextJobId w, job_name = ''settle-event'', job_data = eid,
             job_state = Delayed, job_delay = 60000, job_attempts = 5, job_backoff = 10000\<rparr>],
        nextJobId := Suc (nextJobId w),
        trace := trace w @ [QueueAdd ''settle-event'' eid]\<rparr>)"

subsection \<open>The finalization guard\<close>

definition checkFinalizationConditions :: "peers \<Rightarrow> proposal \<Rightarrow> bool op" where
  "checkFinalizationConditions P proposal w =
     (if p_status proposal \<noteq> ''liveness'' then (Inr False, w)
      else if now w < p_livenessExpiry proposal then (Inr False, w)
      else await (fetchProposalDisputes P (p_proposalId proposal)) (\<lambda>disputes.
           ret (length disputes = 0)) w)"

subsection \<open>Entry points\<close>

text \<open>\<^verbatim>\<open>processEvent\<close>; the first argument is the state machine's table.\<close>

definition processEvent :: "transition_table \<Rightarrow> peers \<Rightarrow> string \<Rightarrow> ResolutionContext op" where
  "processEvent tbl P eid =
     try_catch
       (await (fetchEventData P eid) (\<lambda>event w.
          let ctx = \<lparr>eventId = eid, proposalId = None, currentState = e_status event,
                     metadata = (case e_metadata event of None \<Rightarrow> [] | Some m \<Rightarrow> m),
                     timestamp = now w\<rparr>
          in case transition tbl ctx (e_status event) of
               (Some e, ctx') \<Rightarrow> (Inl e, w)
             | (None, ctx') \<Rightarrow> (Inr ctx', w)))
       (\<lambda>error. await (logger_error ''Failed to process event'' error) (\<lambda>_. throw error))"

definition handleDisputeDetected :: "peers \<Rightarrow> string \<Rightarrow> string \<Rightarrow> unit op" where
  "handleDisputeDetected P pid disputeData =
     try_catch
       (await (fetchProposalData P pid) (\<lambda>proposal.
        await (updateEventState P (p_eventId proposal) DISPUTED) (\<lambda>_.
        await (notifyArbitrators P pid disputeData) (\<lambda>_.
        pauseLivenessMonitoring pid))))
       (\<lambda>error. await (logger_error ''Failed to handle dispute'' error) (\<lambda>_. throw error))"

definition finalizeProposal :: "peers \<Rightarrow> string \<Rightarrow> unit op" where
  "finalizeProposal P pid =
     try_catch
       (await (fetchProposalData P pid) (\<lambda>proposal.
        await (checkFinalizationConditions P proposal) (\<lambda>canFinalize.
        if \<not> canFinalize then throw FinalizationConditionsNotMet
        else
          await (BlockchainService_finalizeProposal P pid) (\<lambda>_.
          await (updateEventState P (p_eventId proposal) RESOLVED) (\<lambda>_.
          scheduleSettlement (p_eventId proposal))))))
       (\<lambda>error. await (logger_error ''Failed to finalize proposal'' error) (\<lambda>_. throw error))"

text \<open>\<^verbatim>\<open>cleanupEventData\<close>: the loop deletes every key the scan returned.\<close>

fun deleteKeys :: "string list \<Rightarrow> world \<Rightarrow> world" where
  "deleteKeys [] w = w"
| "deleteKeys (key # keys) w = deleteKeys keys (snd (cache_delete key w))"

definition cleanupEventData :: "string \<Rightarrow> unit op" where
  "cleanupEventData eid =
     await (cache_delete (eventKey eid)) (\<lambda>_ w.
       let proposalIds = cache_keys (proposalPattern eid) w
       in (Inr (), deleteKeys proposalIds w))"

definition settleEvent :: "peers \<Rightarrow> string \<Rightarrow> unit op" where
  "settleEvent P eid =
     try_catch
       (await (fetchEventData P eid) (\<lambda>event.
        if e_status event \<noteq> RESOLVED then throw EventNotResolved
        else
          await (BlockchainService_settleEvent P eid) (\<lambda>_.
          await (distributeRewards P eid) (\<lambda>_.
          await (updateEventState P eid SETTLED) (\<lambda>_.
          cleanupEventData eid)))))
       (\<lambda>error. await (logger_error ''Failed to settle event'' error) (\<lambda>_. throw error))"

section \<open>The chain indexer\<close>

text \<open>
  An \<^verbatim>\<open>EventCreated\<close> log as the indexer reads it (\<^verbatim>\<open>event.args.eventId\<close>,
  \<^verbatim>\<open>event.args.description\<close>, \<^verbatim>\<open>event.args.resolutionTime\<close>, \<^verbatim>\<open>event.blockNumber\<close>,
  \<^verbatim>\<open>event.transactionHash\<close>).
\<close>

record chain_log =
  l_eventId :: string
  l_description :: string
  l_resolutionTime :: int
  l_blockNumber :: int
  l_transactionHash :: string

datatype indexer_effect =
    QueryEventCreated int int
  | PostBlockchainEvent chain_log
  | IndexerLogError string error

text \<open>
  The indexer's field \<^verbatim>\<open>lastIndexedBlock\<close> (initially 0) and the trace of what it did
  to the outside.
\<close>

record indexer =
  lastIndexedBlock :: int
  itrace :: "indexer_effect list"

text \<open>
  The outside of the indexer: the chain head (\<^verbatim>\<open>provider.getBlockNumber()\<close>), whether
  \<^verbatim>\<open>getContract('oracleRegistry')\<close> is defined, the log query
  (\<^verbatim>\<open>oracleRegistry.queryFilter(filter, fromBlock, toBlock)\<close>) and the POST to
  \<^verbatim>\<open>/events/blockchain\<close> of the event-manager peer.
\<close>

record chain =
  getBlockNumber :: "error + int"
  hasOracleRegistry :: bool
  queryFilter :: "int \<Rightarrow> int \<Rightarrow> error + chain_log list"
  postBlockchainEvent :: "chain_log \<Rightarrow> error + unit"

text \<open>\<^verbatim>\<open>handleEventCreated\<close>: the POST is inside a try/catch that logs and returns.\<close>

definition handleEventCreated :: "chain \<Rightarrow> chain_log \<Rightarrow> indexer \<Rightarrow> indexer" where
  "handleEventCreated C ev s =
     (case postBlockchainEvent C ev of
        Inr _ \<Rightarrow> s\<lparr>itrace := itrace s @ [PostBlockchainEvent ev]\<rparr>
      | Inl e \<Rightarrow>
          s\<lparr>itrace := itrace s @ [PostBlockchainEvent ev, IndexerLogError ''Failed to handle event'' e]\<rparr>)"

fun handleEvents :: "chain \<Rightarrow> chain_log list \<Rightarrow> indexer \<Rightarrow> indexer" where
  "handleEvents C [] s = s"
| "handleEvents C (ev # evs) s = handleEvents C evs (handleEventCreated C ev s)"

text \<open>\<^verbatim>\<open>processBlocks\<close>: the error thrown (if any) and the indexer as the call left it.\<close>

definition processBlocks :: "chain \<Rightarrow> int \<Rightarrow> int \<Rightarrow> indexer \<Rightarrow> error option \<times> indexer" where
  "processBlocks C fromBlock toBlock s =
     (if \<not> hasOracleRegistry C then (None, s)
      else
        (let s' = s\<lparr>itrace := itrace s @ [QueryEventCreated fromBlock toBlock]\<rparr> in
         case queryFilter C fromBlock toBlock of
           Inl e \<Rightarrow> (Some e, s')
         | Inr events \<Rightarrow> (None, handleEvents C events s')))"

text \<open>\<^verbatim>\<open>indexNewBlocks\<close>, one tick of the cron job; it never throws.\<close>

definition indexNewBlocks :: "chain \<Rightarrow> indexer \<Rightarrow> indexer" where
  "indexNewBlocks C s =
     (case getBlockNumber C of
        Inl e \<Rightarrow> s\<lparr>itrace := itrace s @ [IndexerLogError ''Indexing error'' e]\<rparr>
      | Inr currentBlock \<Rightarrow>
          (let s1 = (if lastIndexedBlock s = 0 then s\<lparr>lastIndexedBlock := currentBlock - 100\<rparr> else s)
           in if currentBlock > lastIndexedBlock s1
              then
                (case processBlocks C (lastIndexedBlock s1 + 1) currentBlock s1 of
                   (Some e, s2) \<Rightarrow> s2\<lparr>itrace := itrace s2 @ [IndexerLogError ''Indexing error'' e]\<rparr>
                 | (None, s2) \<Rightarrow> s2\<lparr>lastIndexedBlock := currentBlock\<rparr>)
              else s1))"

section \<open>The spec's finalization gate and concrete scenarios\<close>

text \<open>
  The gate I-F1 in the spec's words: the proposal's status is "liveness", now is at least
  livenessExpiry, and the dispute query for the proposal returns zero open disputes.
\<close>

definition finalization_gate :: "peers \<Rightarrow> proposal \<Rightarrow> world \<Rightarrow> bool" where
  "finalization_gate P proposal w \<longleftrightarrow>
     p_status proposal = ''liveness''
     \<and> p_livenessExpiry proposal \<le> now w
     \<and> getDisputes P (p_proposalId proposal) = Inr []"

text \<open>
  Peers that all answer: the event-manager returns \<open>ev\<close>, the proposal peer returns
  \<open>pr\<close>, there are no disputes, every write is accepted and every contract is loaded.
\<close>

definition okPeers :: "event \<Rightarrow> proposal \<Rightarrow> peers" where
  "okPeers ev pr =
     \<lparr>getEvent = (\<lambda>_. Inr ev), patchEvent = (\<lambda>_ _. Inr ()), getProposal = (\<lambda>_. Inr pr),
      getDisputes = (\<lambda>_. Inr []), postDistribute = (\<lambda>_. Inr ()),
      postNotifyArbitrators = (\<lambda>_ _. Inr ()), contracts = (\<lambda>_. True),
      contract_finalizeProposal = (\<lambda>_. Inr ''0xf1''), contract_settleEvent = (\<lambda>_. Inr ''0x5e'')\<rparr>"

text \<open>The same peers, but the dispute peer rejects every query.\<close>

definition disputesDownPeers :: "event \<Rightarrow> proposal \<Rightarrow> peers" where
  "disputesDownPeers ev pr = (okPeers ev pr)\<lparr>getDisputes := \<lambda>_. Inl (HttpError ''503'')\<rparr>"

definition emptyWorld :: "int \<Rightarrow> world" where
  "emptyWorld t =
     \<lparr>now = t, cache = [], livenessQueue = [], settlementQueue = [], nextJobId = 0, trace = []\<rparr>"

text \<open>Proposal \<open>p1\<close> of event \<open>e1\<close>, in its liveness window until 7200000 ms.\<close>

definition proposal1 :: proposal where
  "proposal1 =
     \<lparr>p_proposalId = ''p1'', p_eventId = ''e1'', p_status = ''liveness'', p_livenessExpiry = 7200000\<rparr>"

definition event1 :: "ResolutionState \<Rightarrow> event" where
  "event1 st = \<lparr>e_status = st, e_metadata = None\<rparr>"

definition livenessJob :: "nat \<Rightarrow> string \<Rightarrow> job_state \<Rightarrow> job" where
  "livenessJob n pid st =
     \<lparr>job_id = n, job_name = ''check-liveness'', job_data = pid, job_state = st,
      job_delay = 7200000, job_attempts = 3, job_backoff = 5000\<rparr>"

text \<open>
  A one-entry table (in the layout the lookup reads: keyed by the target) whose edge
  from created to detecting has a condition and an action.
\<close>

definition guardedTable :: transition_table where
  "guardedTable =
     [(DETECTING,
       [\<lparr>from' = [CREATED], to' = DETECTING,
         condition = Some (\<lambda>c. 0 < timestamp c),
         action = Some (\<lambda>c. (None, c\<lparr>metadata := [(''seen'', ''yes'')]\<rparr>))\<rparr>])]"

definition context1 :: "ResolutionState \<Rightarrow> int \<Rightarrow> ResolutionContext" where
  "context1 st t =
     \<lparr>eventId = ''e1'', proposalId = None, currentState = st, metadata = [], timestamp = t\<rparr>"

text \<open>The world after proposal \<open>p1\<close> (of event \<open>e1\<close>) was fetched once: its cache entry is live.\<close>

definition cachedProposalWorld :: world where
  "cachedProposalWorld =
     snd (fetchProposalData (okPeers (event1 RESOLVED) proposal1) ''p1'' (emptyWorld 1000))"

text \<open>
  What \<^verbatim>\<open>handleEventCreated\<close> does to the outside for one log: the POST, and the error
  line when the POST is rejected.
\<close>

definition handleEventCreated_effects :: "chain \<Rightarrow> chain_log \<Rightarrow> indexer_effect list" where
  "handleEventCreated_effects C ev =
     PostBlockchainEvent ev #
       (case postBlockchainEvent C ev of
          Inl e \<Rightarrow> [IndexerLogError ''Failed to handle event'' e] | Inr _ \<Rightarrow> [])"

text \<open>
  A chain with one \<^verbatim>\<open>EventCreated\<close> log, in block 950, whose event-manager peer rejects
  every POST.
\<close>

definition log1 :: chain_log where
  "log1 = \<lparr>l_eventId = ''e1'', l_description = ''rain tomorrow'', l_resolutionTime = 1700000000,
           l_blockNumber = 950, l_transactionHash = ''0xabc''\<rparr>"

definition peerDownChain :: "int \<Rightarrow> chain" where
  "peerDownChain head =
     \<lparr>getBlockNumber = Inr head, hasOracleRegistry = True,
      queryFilter = (\<lambda>f t. if f \<le> 950 \<and> 950 \<le> t then Inr [log1] else Inr []),
      postBlockchainEvent = (\<lambda>_. Inl (HttpError ''503''))\<rparr>"

text \<open>The same chain with a log query that times out.\<close>

definition queryDownChain :: "int \<Rightarrow> chain" where
  "queryDownChain head = (peerDownChain head)\<lparr>queryFilter := \<lambda>_ _. Inl (ChainError ''timeout'')\<rparr>"

section \<open>Proof tools\<close>

lemmas op_defs = await_def try_catch_def ret_def throw_def request_def emit_def logger_error_def

lemmas run_defs =
  op_defs Let_def cache_get_def cache_set_def cache_delete_def cache_keys_def issued_def
  fetchEventData_def fetchProposalData_def fetchProposalDisputes_def updateEventState_def
  distributeRewards_def notifyArbitrators_def getJobs_def job_remove_def
  pauseLivenessMonitoring_def scheduleSettlement_def checkFinalizationConditions_def
  BlockchainService_finalizeProposal_def BlockchainService_settleEvent_def
  parse_event_def parse_proposal_def eventKey_def proposalKey_def proposalPattern_def

lemmas scenario_defs =
  okPeers_def emptyWorld_def proposal1_def event1_def livenessJob_def

lemma map_of_filter_key:
  "map_of (filter (\<lambda>e. fst e \<noteq> key) xs) k = (if k = key then None else map_of xs k)"
  by (induction xs) auto

lemma issued_append [simp]: "trace w' = trace w @ es \<Longrightarrow> issued w w' = es"
  by (simp add: issued_def)

lemma issued_same [simp]: "issued w w = []"
  by (simp add: issued_def)

lemma cache_get_trace [simp]: "cache_get k (w\<lparr>trace := t\<rparr>) = cache_get k w"
  by (simp add: cache_get_def split: option.splits)

lemma cache_get_kept:
  "cache_get key w = None \<Longrightarrow> cache_get k w = Some v \<Longrightarrow>
   cache_get k (w\<lparr>cache := (key, x) # filter (\<lambda>e. fst e \<noteq> key) (cache w)\<rparr>) = Some v"
  by (auto simp: cache_get_def map_of_filter_key split: option.splits)

lemma await_Inr:
  "await m f w = (Inr y, w') \<longleftrightarrow> (\<exists>x w1. m w = (Inr x, w1) \<and> f x w1 = (Inr y, w'))"
  by (auto simp: await_def split: prod.splits sum.splits)

lemma rethrow_Inr [simp]:
  "await (logger_error msg e) (\<lambda>_. throw e) w \<noteq> (Inr y, w')"
  by (simp add: op_defs)

lemma try_rethrow_Inr:
  "try_catch m (\<lambda>error. await (logger_error msg error) (\<lambda>_. throw error)) w = (Inr y, w')
     \<longleftrightarrow> m w = (Inr y, w')"
  by (auto simp: try_catch_def split: prod.splits sum.splits)

lemma fetchEventData_cases:
  "fetchEventData P eid w = (Inr ev, w1) \<Longrightarrow>
     (w1 = w \<and> cache_get (eventKey eid) w = Some (JEvent ev))
   \<or> (cache_get (eventKey eid) w = None \<and> getEvent P eid = Inr ev
      \<and> w1 = w\<lparr>cache := (eventKey eid, JEvent ev, now w + 300 * 1000)
                          # filter (\<lambda>e. fst e \<noteq> eventKey eid) (cache w),
                trace := trace w @ [HttpGetEvent eid, CacheSet (eventKey eid) (JEvent ev) 300]\<rparr>)"
  by (auto simp: fetchEventData_def op_defs cache_set_def parse_event_def Let_def
           split: option.splits sum.splits json.splits)

lemma fetchProposalData_trace:
  "fetchProposalData P pid w = (r, w1) \<Longrightarrow>
     now w1 = now w \<and> livenessQueue w1 = livenessQueue w \<and>
     (\<exists>es. trace w1 = trace w @ es \<and> (\<forall>x. TxFinalizeProposal x \<notin> set es))"
  by (auto simp: fetchProposalData_def op_defs cache_set_def parse_proposal_def Let_def
           split: option.splits sum.splits json.splits)

lemma updateEventState_frame:
  "updateEventState P eid st w = (r, w') \<Longrightarrow>
     livenessQueue w' = livenessQueue w \<and> now w' = now w \<and> (\<exists>es. trace w' = trace w @ es)"
  by (auto simp: updateEventState_def op_defs cache_delete_def split: sum.splits)

lemma notifyArbitrators_frame:
  "notifyArbitrators P pid d w = (r, w') \<Longrightarrow>
     livenessQueue w' = livenessQueue w \<and> now w' = now w \<and> (\<exists>es. trace w' = trace w @ es)"
  by (auto simp: notifyArbitrators_def op_defs split: sum.splits)

lemma check_trace:
  "checkFinalizationConditions P pr w = (r, w2) \<Longrightarrow>
     now w2 = now w \<and> (\<exists>es. trace w2 = trace w @ es \<and> (\<forall>x. TxFinalizeProposal x \<notin> set es))
     \<and> (r = Inr True \<longleftrightarrow> finalization_gate P pr w)
     \<and> (p_status pr \<noteq> ''liveness'' \<or> now w < p_livenessExpiry pr
          \<or> (\<exists>d ds. getDisputes P (p_proposalId pr) = Inr (d # ds)) \<longrightarrow> r = Inr False)
     \<and> (\<forall>e. p_status pr = ''liveness'' \<and> p_livenessExpiry pr \<le> now w
          \<and> getDisputes P (p_proposalId pr) = Inl e \<longrightarrow> r = Inl e)"
  by (auto simp: checkFinalizationConditions_def fetchProposalDisputes_def op_defs finalization_gate_def
           split: if_splits sum.splits)

lemma removeJobsOf_queue:
  "j \<in> set (livenessQueue (removeJobsOf pid js w)) \<Longrightarrow>
     j \<in> set (livenessQueue w) \<and> (\<forall>k \<in> set js. job_data k = pid \<longrightarrow> job_id j \<noteq> job_id k)"
proof (induction js arbitrary: w)
  case Nil
  then show ?case by simp
next
  case (Cons a js)
  let ?w1 = "if job_data a = pid then job_remove a w else w"
  from Cons.prems have "j \<in> set (livenessQueue (removeJobsOf pid js ?w1))"
    by simp
  from Cons.IH [OF this] show ?case
    by (auto simp: job_remove_def split: if_splits)
qed

lemma removeJobsOf_trace:
  "trace (removeJobsOf pid js w) =
     trace w @ map (\<lambda>j. JobRemove (job_id j)) (filter (\<lambda>j. job_data j = pid) js)"
  by (induction js arbitrary: w) (simp_all add: job_remove_def)

lemma pause_clears:
  "filter (\<lambda>j. job_data j = pid)
     (getJobs [Delayed, Waiting] (livenessQueue (snd (pauseLivenessMonitoring pid w)))) = []"
proof -
  have "\<not> (job_data j = pid \<and> job_state j \<in> {Delayed, Waiting})"
    if "j \<in> set (livenessQueue (snd (pauseLivenessMonitoring pid w)))" for j
    using removeJobsOf_queue [of j pid "getJobs [Delayed, Waiting] (livenessQueue w)" w] that
    by (auto simp: pauseLivenessMonitoring_def getJobs_def)
  then show ?thesis
    by (auto simp: filter_empty_conv getJobs_def)
qed

lemma handleDisputeDetected_success:
  assumes "handleDisputeDetected P pid d w = (Inr u, w')"
  shows "\<exists>w3 es. pauseLivenessMonitoring pid w3 = (Inr u, w') \<and> livenessQueue w3 = livenessQueue w
        \<and> trace w3 = trace w @ es"
proof -
  from assms obtain pr w1 w2 w3 where
    f: "fetchProposalData P pid w = (Inr pr, w1)" and
    u: "updateEventState P (p_eventId pr) DISPUTED w1 = (Inr (), w2)" and
    n: "notifyArbitrators P pid d w2 = (Inr (), w3)" and
    p: "pauseLivenessMonitoring pid w3 = (Inr u, w')"
    by (auto simp: handleDisputeDetected_def try_rethrow_Inr await_Inr)
  from fetchProposalData_trace [OF f] updateEventState_frame [OF u] notifyArbitrators_frame [OF n]
  have "livenessQueue w3 = livenessQueue w \<and> (\<exists>es. trace w3 = trace w @ es)"
    by auto
  with p show ?thesis by blast
qed

section \<open>Properties of the state machine\<close>

lemma canTransition_transitions:
  "canTransition transitions c t \<longleftrightarrow>
     c = t \<and> t \<in> {CREATED, DETECTING, PROPOSING, LIVENESS, DISPUTED, ARBITRATION, RESOLVED}"
  by (cases t; cases c)
     (simp_all add: canTransition_def validTransitionsFor_def transitions_def edge_def)

lemma transition_transitions:
  "transition transitions ctx t =
     (if canTransition transitions (currentState ctx) t
      then (None, ctx\<lparr>currentState := t\<rparr>)
      else (Some (InvalidTransition (currentState ctx) t), ctx))"
  by (cases t; cases "currentState ctx")
     (simp_all add: transition_def findTransition_def conditionFails_def runAction_def
        canTransition_def validTransitionsFor_def transitions_def edge_def)

text \<open>
  C1. The claim: a requested transition is accepted exactly when (from, to) is an edge
  of the table (created to detecting, ..., resolved to settled). The table declares the
  edge from created to detecting, but the lookup reads the table at the target state and
  compares only the \<^verbatim>\<open>from\<close> list: the declared edge created to detecting is rejected
  with InvalidTransition, and the pair created to created, which is no edge, is accepted.
\<close>

theorem C1_declared_edge_rejected:
  "canTransition transitions CREATED DETECTING = False
   \<and> transition transitions
        \<lparr>eventId = ''e1'', proposalId = None, currentState = CREATED, metadata = [], timestamp = 0\<rparr>
        DETECTING
      = (Some (InvalidTransition CREATED DETECTING),
         \<lparr>eventId = ''e1'', proposalId = None, currentState = CREATED, metadata = [], timestamp = 0\<rparr>)
   \<and> canTransition transitions CREATED CREATED = True
   \<and> transition transitions
        \<lparr>eventId = ''e1'', proposalId = None, currentState = CREATED, metadata = [], timestamp = 0\<rparr>
        CREATED
      = (None,
         \<lparr>eventId = ''e1'', proposalId = None, currentState = CREATED, metadata = [], timestamp = 0\<rparr>)"
  by (simp add: transition_def findTransition_def conditionFails_def runAction_def
        canTransition_def validTransitionsFor_def transitions_def edge_def)

text \<open>
  C10. When \<^verbatim>\<open>transition\<close> fails because no entry is found or because the entry's
  condition evaluates to false, the context (and so \<^verbatim>\<open>context.currentState\<close>) is left as
  it was. A call that succeeds found an entry, its condition (when present) held, its
  action (when present) completed, and only then was \<^verbatim>\<open>currentState\<close> set to the target.
  A failing call leaves a context other than the one it was given only when the action
  itself changed it before rejecting.
\<close>

theorem C10_failed_transition_keeps_state:
  "(findTransition tbl (currentState ctx) tgt = None \<longrightarrow>
      transition tbl ctx tgt = (Some (InvalidTransition (currentState ctx) tgt), ctx))
   \<and> (\<forall>t. findTransition tbl (currentState ctx) tgt = Some t \<and> conditionFails t ctx \<longrightarrow>
      transition tbl ctx tgt = (Some (ConditionNotMet (currentState ctx) tgt), ctx))
   \<and> (\<forall>ctx'. transition tbl ctx tgt = (None, ctx') \<longrightarrow>
        (\<exists>t ctx''. findTransition tbl (currentState ctx) tgt = Some t
           \<and> \<not> conditionFails t ctx
           \<and> runAction t ctx = (None, ctx'')
           \<and> ctx' = ctx''\<lparr>currentState := tgt\<rparr>))
   \<and> (\<forall>e ctx'. transition tbl ctx tgt = (Some e, ctx') \<and> ctx' \<noteq> ctx \<longrightarrow>
        (\<exists>t. findTransition tbl (currentState ctx) tgt = Some t
           \<and> \<not> conditionFails t ctx \<and> runAction t ctx = (Some e, ctx')))"
  by (auto simp: transition_def Let_def split: option.splits if_splits prod.splits)

theorem C10_witness:
  "findTransition guardedTable (currentState (context1 SETTLED 5)) DETECTING = None
   \<and> transition guardedTable (context1 SETTLED 5) DETECTING
       = (Some (InvalidTransition SETTLED DETECTING), context1 SETTLED 5)
   \<and> (\<exists>t. findTransition guardedTable (currentState (context1 CREATED 0)) DETECTING = Some t
          \<and> conditionFails t (context1 CREATED 0))
   \<and> transition guardedTable (context1 CREATED 0) DETECTING
       = (Some (ConditionNotMet CREATED DETECTING), context1 CREATED 0)
   \<and> transition guardedTable (context1 CREATED 5) DETECTING
       = (None, (context1 CREATED 5)\<lparr>currentState := DETECTING, metadata := [(''seen'', ''yes'')]\<rparr>)"
  using C10_failed_transition_keeps_state [of guardedTable "context1 SETTLED 5" DETECTING]
        C10_failed_transition_keeps_state [of guardedTable "context1 CREATED 0" DETECTING]
        C10_failed_transition_keeps_state [of guardedTable "context1 CREATED 5" DETECTING]
  by (simp add: transition_def findTransition_def conditionFails_def runAction_def
        validTransitionsFor_def guardedTable_def context1_def)

section \<open>Properties of the resolution service\<close>

text \<open>
  C2, as amended. For a proposal that \<^verbatim>\<open>fetchProposalData\<close> returned: the finalize
  transaction is among the effects of \<^verbatim>\<open>finalizeProposal\<close> only if the gate I-F1 holds
  (status "liveness", livenessExpiry \<open>\<le>\<close> now, and a dispute query that returns no
  dispute). When the gate does not hold, the call fails and issues no finalize
  transaction: it fails with \<^verbatim>\<open>Finalization conditions not met\<close> when the guard evaluates
  to false (status other than "liveness", or now before livenessExpiry, or a dispute
  query that returns at least one dispute), and with the dispute query's own error when
  that query rejects.
\<close>

theorem C2_finalization_gate:
  assumes "fst (fetchProposalData P pid w) = Inr proposal"
  shows "(TxFinalizeProposal pid \<in> set (issued w (snd (finalizeProposal P pid w)))
            \<longrightarrow> finalization_gate P proposal w)
       \<and> (\<not> finalization_gate P proposal w \<longrightarrow>
            (\<exists>e. fst (finalizeProposal P pid w) = Inl e)
            \<and> (\<forall>x. TxFinalizeProposal x \<notin> set (issued w (snd (finalizeProposal P pid w)))))
       \<and> (p_status proposal \<noteq> ''liveness'' \<or> now w < p_livenessExpiry proposal
            \<or> (\<exists>d ds. getDisputes P (p_proposalId proposal) = Inr (d # ds))
            \<longrightarrow> fst (finalizeProposal P pid w) = Inl FinalizationConditionsNotMet)
       \<and> (\<forall>e. p_status proposal = ''liveness'' \<and> p_livenessExpiry proposal \<le> now w
            \<and> getDisputes P (p_proposalId proposal) = Inl e
            \<longrightarrow> fst (finalizeProposal P pid w) = Inl e)"
proof -
  obtain w1 where f: "fetchProposalData P pid w = (Inr proposal, w1)"
    using assms by (cases "fetchProposalData P pid w") auto
  obtain r w2 where c: "checkFinalizationConditions P proposal w1 = (r, w2)"
    by (cases "checkFinalizationConditions P proposal w1") auto
  from fetchProposalData_trace [OF f] obtain es1 where
    n1: "now w1 = now w" and t1: "trace w1 = trace w @ es1" and ntx1: "\<forall>x. TxFinalizeProposal x \<notin> set es1"
    by blast
  from check_trace [OF c] obtain es2 where
    t2: "trace w2 = trace w1 @ es2" and ntx2: "\<forall>x. TxFinalizeProposal x \<notin> set es2"
    and g: "r = Inr True \<longleftrightarrow> finalization_gate P proposal w1"
    and ff: "p_status proposal \<noteq> ''liveness'' \<or> now w1 < p_livenessExpiry proposal
          \<or> (\<exists>d ds. getDisputes P (p_proposalId proposal) = Inr (d # ds)) \<longrightarrow> r = Inr False"
    and fe': "\<forall>e. p_status proposal = ''liveness'' \<and> p_livenessExpiry proposal \<le> now w1
          \<and> getDisputes P (p_proposalId proposal) = Inl e \<longrightarrow> r = Inl e"
    by blast
  have gw: "finalization_gate P proposal w1 = finalization_gate P proposal w" by (simp add: finalization_gate_def n1)
  show ?thesis
  proof (cases "r = Inr True")
    case True
    then show ?thesis using g gw by (auto simp: finalization_gate_def)
  next
    case False
    then have "(\<exists>e. r = Inl e) \<or> r = Inr False" by (cases r) auto
    then have fin: "\<exists>e. finalizeProposal P pid w =
        (Inl e, w2\<lparr>trace := trace w2 @ [LogError ''Failed to finalize proposal'' e]\<rparr>)
        \<and> (r = Inr False \<longrightarrow> e = FinalizationConditionsNotMet) \<and> (\<forall>e'. r = Inl e' \<longrightarrow> e = e')"
      using f c by (auto simp: finalizeProposal_def op_defs)
    then obtain e where fe: "finalizeProposal P pid w =
        (Inl e, w2\<lparr>trace := trace w2 @ [LogError ''Failed to finalize proposal'' e]\<rparr>)"
      and ee: "r = Inr False \<longrightarrow> e = FinalizationConditionsNotMet"
      and el: "\<forall>e'. r = Inl e' \<longrightarrow> e = e'" by blast
    have iss: "issued w (snd (finalizeProposal P pid w)) = es1 @ es2 @ [LogError ''Failed to finalize proposal'' e]"
      by (simp add: fe t1 t2)
    have res: "fst (finalizeProposal P pid w) = Inl e" by (simp add: fe)
    show ?thesis using False g gw ntx1 ntx2 ff ee el fe' n1 by (auto simp: iss res)
  qed
qed

theorem C2_witness:
  "fst (fetchProposalData (okPeers (event1 LIVENESS) proposal1) ''p1'' (emptyWorld 7200000)) = Inr proposal1
   \<and> TxFinalizeProposal ''p1''
       \<in> set (issued (emptyWorld 7200000)
            (snd (finalizeProposal (okPeers (event1 LIVENESS) proposal1) ''p1'' (emptyWorld 7200000))))
   \<and> finalization_gate (okPeers (event1 LIVENESS) proposal1) proposal1 (emptyWorld 7200000)
   \<and> fst (fetchProposalData (okPeers (event1 LIVENESS) proposal1) ''p1'' (emptyWorld 0)) = Inr proposal1
   \<and> \<not> finalization_gate (okPeers (event1 LIVENESS) proposal1) proposal1 (emptyWorld 0)
   \<and> now (emptyWorld 0) < p_livenessExpiry proposal1
   \<and> fst (finalizeProposal (okPeers (event1 LIVENESS) proposal1) ''p1'' (emptyWorld 0))
       = Inl FinalizationConditionsNotMet
   \<and> (\<forall>x. TxFinalizeProposal x
         \<notin> set (issued (emptyWorld 0)
              (snd (finalizeProposal (okPeers (event1 LIVENESS) proposal1) ''p1'' (emptyWorld 0)))))
   \<and> fst (fetchProposalData (disputesDownPeers (event1 LIVENESS) proposal1) ''p1'' (emptyWorld 7200000))
       = Inr proposal1
   \<and> p_status proposal1 = ''liveness'' \<and> p_livenessExpiry proposal1 \<le> now (emptyWorld 7200000)
   \<and> getDisputes (disputesDownPeers (event1 LIVENESS) proposal1) (p_proposalId proposal1)
       = Inl (HttpError ''503'')
   \<and> fst (finalizeProposal (disputesDownPeers (event1 LIVENESS) proposal1) ''p1'' (emptyWorld 7200000))
       = Inl (HttpError ''503'')
   \<and> (\<forall>x. TxFinalizeProposal x
         \<notin> set (issued (emptyWorld 7200000)
              (snd (finalizeProposal (disputesDownPeers (event1 LIVENESS) proposal1) ''p1''
                     (emptyWorld 7200000)))))"
proof -
  have f1: "fst (fetchProposalData (okPeers (event1 LIVENESS) proposal1) ''p1'' (emptyWorld 7200000)) = Inr proposal1"
    by (simp add: run_defs scenario_defs)
  have f0: "fst (fetchProposalData (okPeers (event1 LIVENESS) proposal1) ''p1'' (emptyWorld 0)) = Inr proposal1"
    by (simp add: run_defs scenario_defs)
  have fd: "fst (fetchProposalData (disputesDownPeers (event1 LIVENESS) proposal1) ''p1'' (emptyWorld 7200000))
       = Inr proposal1"
    by (simp add: run_defs scenario_defs disputesDownPeers_def)
  have tx: "TxFinalizeProposal ''p1''
       \<in> set (issued (emptyWorld 7200000)
            (snd (finalizeProposal (okPeers (event1 LIVENESS) proposal1) ''p1'' (emptyWorld 7200000))))"
    by (simp add: finalizeProposal_def run_defs scenario_defs)
  have early: "now (emptyWorld 0) < p_livenessExpiry proposal1"
    by (simp add: scenario_defs)
  then have ng: "\<not> finalization_gate (okPeers (event1 LIVENESS) proposal1) proposal1 (emptyWorld 0)"
    by (simp add: finalization_gate_def)
  have st: "p_status proposal1 = ''liveness'' \<and> p_livenessExpiry proposal1 \<le> now (emptyWorld 7200000)"
    by (simp add: scenario_defs)
  have dd: "getDisputes (disputesDownPeers (event1 LIVENESS) proposal1) (p_proposalId proposal1)
       = Inl (HttpError ''503'')"
    by (simp add: disputesDownPeers_def)
  then have ngd: "\<not> finalization_gate (disputesDownPeers (event1 LIVENESS) proposal1) proposal1
       (emptyWorld 7200000)"
    by (simp add: finalization_gate_def)
  show ?thesis
    using f1 f0 fd tx early ng st dd ngd
      C2_finalization_gate [OF f1] C2_finalization_gate [OF f0] C2_finalization_gate [OF fd]
    by simp
qed

text \<open>
  The claim C2 as stated (when the gate does not hold, the call fails with
  PreconditionNotMet) is false where the dispute query rejects: with status "liveness",
  the clock at livenessExpiry and a dispute peer that answers 503, the gate does not
  hold and \<^verbatim>\<open>finalizeProposal\<close> fails with the peer's error, not with
  \<^verbatim>\<open>Finalization conditions not met\<close>.
\<close>

theorem C2_counterexample:
  "fst (fetchProposalData (disputesDownPeers (event1 LIVENESS) proposal1) ''p1'' (emptyWorld 7200000))
     = Inr proposal1
   \<and> \<not> finalization_gate (disputesDownPeers (event1 LIVENESS) proposal1) proposal1 (emptyWorld 7200000)
   \<and> fst (finalizeProposal (disputesDownPeers (event1 LIVENESS) proposal1) ''p1'' (emptyWorld 7200000))
       = Inl (HttpError ''503'')
   \<and> fst (finalizeProposal (disputesDownPeers (event1 LIVENESS) proposal1) ''p1'' (emptyWorld 7200000))
       \<noteq> Inl FinalizationConditionsNotMet"
  by (simp add: finalizeProposal_def finalization_gate_def run_defs scenario_defs
        disputesDownPeers_def)

text \<open>
  C3, as amended. For a proposal in status "liveness" with zero open disputes, the
  guard passes exactly when livenessExpiry \<open>\<le>\<close> now: an attempt made at exactly
  now = livenessExpiry passes the guard (the comparison is not strict), and the guard
  fails on time only when now is before livenessExpiry.
\<close>

theorem C3_guard_passes_at_expiry:
  "p_status proposal = ''liveness'' \<Longrightarrow> getDisputes P (p_proposalId proposal) = Inr [] \<Longrightarrow>
   fst (checkFinalizationConditions P proposal w) = Inr (p_livenessExpiry proposal \<le> now w)"
  by (simp add: checkFinalizationConditions_def fetchProposalDisputes_def op_defs)

theorem C3_witness:
  "p_status proposal1 = ''liveness''
   \<and> getDisputes (okPeers (event1 LIVENESS) proposal1) (p_proposalId proposal1) = Inr []
   \<and> fst (checkFinalizationConditions (okPeers (event1 LIVENESS) proposal1) proposal1 (emptyWorld 7200000))
       = Inr True
   \<and> fst (checkFinalizationConditions (okPeers (event1 LIVENESS) proposal1) proposal1 (emptyWorld 7199999))
       = Inr False"
proof -
  have s: "p_status proposal1 = ''liveness''"
    by (simp add: proposal1_def)
  have d: "getDisputes (okPeers (event1 LIVENESS) proposal1) (p_proposalId proposal1) = Inr []"
    by (simp add: okPeers_def)
  show ?thesis
    using s d C3_guard_passes_at_expiry [OF s d, of "emptyWorld 7200000"]
      C3_guard_passes_at_expiry [OF s d, of "emptyWorld 7199999"]
    by (simp add: emptyWorld_def proposal1_def)
qed

text \<open>
  The claim C3 as stated (an attempt at exactly now = livenessExpiry fails the guard) is
  false: with status "liveness", no disputes and the clock at livenessExpiry, the guard
  returns true.
\<close>

theorem C3_counterexample:
  "p_status proposal1 = ''liveness''
   \<and> now (emptyWorld 7200000) = p_livenessExpiry proposal1
   \<and> getDisputes (okPeers (event1 LIVENESS) proposal1) (p_proposalId proposal1) = Inr []
   \<and> fst (checkFinalizationConditions (okPeers (event1 LIVENESS) proposal1) proposal1 (emptyWorld 7200000))
       = Inr True"
  by (simp add: checkFinalizationConditions_def fetchProposalDisputes_def op_defs
        proposal1_def okPeers_def emptyWorld_def)

text \<open>
  C4. When \<^verbatim>\<open>handleDisputeDetected(proposalId, disputeData)\<close> returns successfully, no
  job of the liveness queue with that proposalId in its payload is delayed or waiting,
  and every such job that was in the queue at the call has been removed by it.
\<close>

theorem C4_dispute_cancels_liveness_jobs:
  assumes "fst (handleDisputeDetected P pid d w) = Inr ()"
  shows "filter (\<lambda>j. job_data j = pid)
           (getJobs [Delayed, Waiting] (livenessQueue (snd (handleDisputeDetected P pid d w)))) = []
       \<and> (\<forall>j \<in> set (getJobs [Delayed, Waiting] (livenessQueue w)).
            job_data j = pid \<longrightarrow> JobRemove (job_id j) \<in> set (issued w (snd (handleDisputeDetected P pid d w))))"
proof -
  obtain w' where h: "handleDisputeDetected P pid d w = (Inr (), w')"
    using assms by (cases "handleDisputeDetected P pid d w") auto
  from handleDisputeDetected_success [OF h] obtain w3 es where
    p: "pauseLivenessMonitoring pid w3 = (Inr (), w')" and q: "livenessQueue w3 = livenessQueue w"
    and t: "trace w3 = trace w @ es" by blast
  have w': "w' = snd (pauseLivenessMonitoring pid w3)" by (simp add: p)
  have "trace w' = trace w @ es @ map (\<lambda>j. JobRemove (job_id j))
          (filter (\<lambda>j. job_data j = pid) (getJobs [Delayed, Waiting] (livenessQueue w)))"
    by (simp add: w' pauseLivenessMonitoring_def removeJobsOf_trace t q)
  then have "issued w w' = es @ map (\<lambda>j. JobRemove (job_id j))
          (filter (\<lambda>j. job_data j = pid) (getJobs [Delayed, Waiting] (livenessQueue w)))"
    by simp
  then show ?thesis
    using pause_clears [of pid w3] by (auto simp: h w')
qed

theorem C4_witness:
  "fst (handleDisputeDetected (okPeers (event1 LIVENESS) proposal1) ''p1'' ''evidence''
         ((emptyWorld 1000)\<lparr>livenessQueue :=
            [livenessJob 1 ''p1'' Delayed, livenessJob 2 ''p2'' Delayed,
             livenessJob 3 ''p1'' Waiting, livenessJob 4 ''p1'' Active]\<rparr>)) = Inr ()
   \<and> filter (\<lambda>j. job_data j = ''p1'')
        (getJobs [Delayed, Waiting]
          (livenessQueue (snd (handleDisputeDetected (okPeers (event1 LIVENESS) proposal1) ''p1'' ''evidence''
            ((emptyWorld 1000)\<lparr>livenessQueue :=
               [livenessJob 1 ''p1'' Delayed, livenessJob 2 ''p2'' Delayed,
                livenessJob 3 ''p1'' Waiting, livenessJob 4 ''p1'' Active]\<rparr>))))) = []
   \<and> livenessQueue (snd (handleDisputeDetected (okPeers (event1 LIVENESS) proposal1) ''p1'' ''evidence''
        ((emptyWorld 1000)\<lparr>livenessQueue :=
           [livenessJob 1 ''p1'' Delayed, livenessJob 2 ''p2'' Delayed,
            livenessJob 3 ''p1'' Waiting, livenessJob 4 ''p1'' Active]\<rparr>)))
       = [livenessJob 2 ''p2'' Delayed, livenessJob 4 ''p1'' Active]"
proof -
  let ?w = "(emptyWorld 1000)\<lparr>livenessQueue :=
            [livenessJob 1 ''p1'' Delayed, livenessJob 2 ''p2'' Delayed,
             livenessJob 3 ''p1'' Waiting, livenessJob 4 ''p1'' Active]\<rparr>"
  have r: "fst (handleDisputeDetected (okPeers (event1 LIVENESS) proposal1) ''p1'' ''evidence'' ?w) = Inr ()"
    by (simp add: handleDisputeDetected_def run_defs scenario_defs)
  have q: "livenessQueue (snd (handleDisputeDetected (okPeers (event1 LIVENESS) proposal1) ''p1'' ''evidence'' ?w))
       = [livenessJob 2 ''p2'' Delayed, livenessJob 4 ''p1'' Active]"
    by (simp add: handleDisputeDetected_def run_defs scenario_defs)
  show ?thesis
    using r q C4_dispute_cancels_liveness_jobs [OF r] by simp
qed

text \<open>
  C6. If the event that \<^verbatim>\<open>settleEvent\<close> fetched is not in status resolved, the call fails
  with \<^verbatim>\<open>Event not in resolved state\<close>; what it issued is the read of the event (on a cache
  miss: the GET and the cache fill) and the error log, so no settle transaction, no reward
  POST, no PATCH and no cache delete; every cache entry that was readable still is, and
  both queues are untouched.
\<close>

theorem C6_settle_requires_resolved:
  assumes "fst (fetchEventData P eid w) = Inr ev" and "e_status ev \<noteq> RESOLVED"
  shows "fst (settleEvent P eid w) = Inl EventNotResolved
       \<and> (issued w (snd (settleEvent P eid w)) = [LogError ''Failed to settle event'' EventNotResolved]
          \<or> issued w (snd (settleEvent P eid w)) =
              [HttpGetEvent eid, CacheSet (eventKey eid) (JEvent ev) 300,
               LogError ''Failed to settle event'' EventNotResolved])
       \<and> (\<forall>k v. cache_get k w = Some v \<longrightarrow> cache_get k (snd (settleEvent P eid w)) = Some v)
       \<and> livenessQueue (snd (settleEvent P eid w)) = livenessQueue w
       \<and> settlementQueue (snd (settleEvent P eid w)) = settlementQueue w"
proof -
  obtain w1 where f: "fetchEventData P eid w = (Inr ev, w1)"
    using assms(1) by (cases "fetchEventData P eid w") auto
  have s: "settleEvent P eid w =
      (Inl EventNotResolved, w1\<lparr>trace := trace w1 @ [LogError ''Failed to settle event'' EventNotResolved]\<rparr>)"
    using f assms(2) by (simp add: settleEvent_def op_defs)
  from fetchEventData_cases [OF f] show ?thesis
  proof
    assume "w1 = w \<and> cache_get (eventKey eid) w = Some (JEvent ev)"
    then show ?thesis by (simp add: s)
  next
    assume a: "cache_get (eventKey eid) w = None \<and> getEvent P eid = Inr ev
      \<and> w1 = w\<lparr>cache := (eventKey eid, JEvent ev, now w + 300 * 1000)
                          # filter (\<lambda>e. fst e \<noteq> eventKey eid) (cache w),
                trace := trace w @ [HttpGetEvent eid, CacheSet (eventKey eid) (JEvent ev) 300]\<rparr>"
    then show ?thesis
      by (simp add: s cache_get_kept)
  qed
qed

theorem C6_witness:
  "fst (fetchEventData (okPeers (event1 LIVENESS) proposal1) ''e1'' (emptyWorld 1000)) = Inr (event1 LIVENESS)
   \<and> e_status (event1 LIVENESS) \<noteq> RESOLVED
   \<and> fst (settleEvent (okPeers (event1 LIVENESS) proposal1) ''e1'' (emptyWorld 1000)) = Inl EventNotResolved
   \<and> issued (emptyWorld 1000) (snd (settleEvent (okPeers (event1 LIVENESS) proposal1) ''e1'' (emptyWorld 1000)))
       = [HttpGetEvent ''e1'', CacheSet (eventKey ''e1'') (JEvent (event1 LIVENESS)) 300,
          LogError ''Failed to settle event'' EventNotResolved]"
proof -
  have f: "fst (fetchEventData (okPeers (event1 LIVENESS) proposal1) ''e1'' (emptyWorld 1000)) = Inr (event1 LIVENESS)"
    by (simp add: fetchEventData_def cache_get_def cache_set_def op_defs Let_def okPeers_def emptyWorld_def)
  have n: "e_status (event1 LIVENESS) \<noteq> RESOLVED"
    by (simp add: event1_def)
  have "cache_get (eventKey ''e1'') (emptyWorld 1000) = None"
    by (simp add: cache_get_def emptyWorld_def)
  then have "issued (emptyWorld 1000) (snd (settleEvent (okPeers (event1 LIVENESS) proposal1) ''e1'' (emptyWorld 1000)))
      \<noteq> [LogError ''Failed to settle event'' EventNotResolved]"
    by (simp add: settleEvent_def fetchEventData_def cache_set_def op_defs Let_def okPeers_def event1_def issued_def emptyWorld_def)
  then show ?thesis
    using f n C6_settle_requires_resolved [OF f n] by simp
qed

lemma deleteKeys_closed:
  "deleteKeys ks w =
     w\<lparr>cache := filter (\<lambda>e. fst e \<notin> set ks) (cache w), trace := trace w @ map CacheDelete ks\<rparr>"
proof (induction ks arbitrary: w)
  case Nil
  then show ?case by simp
next
  case (Cons k ks)
  show ?case
    by (simp add: Cons.IH cache_delete_def conj_commute)
qed

lemma distributeRewards_run:
  "distributeRewards P eid w =
     (Inr (), w\<lparr>trace := trace w @ HttpPostDistribute eid #
        (case postDistribute P eid of
           Inl e \<Rightarrow> [LogError ''Failed to distribute rewards'' e] | Inr _ \<Rightarrow> [])\<rparr>)"
  by (simp add: distributeRewards_def op_defs split: sum.splits)

lemma notifyArbitrators_run:
  "notifyArbitrators P pid d w =
     (Inr (), w\<lparr>trace := trace w @ HttpPostNotifyArbitrators pid d #
        (case postNotifyArbitrators P pid d of
           Inl e \<Rightarrow> [LogError ''Failed to notify arbitrators'' e] | Inr _ \<Rightarrow> [])\<rparr>)"
  by (simp add: notifyArbitrators_def op_defs split: sum.splits)

lemma settle_after_fetch:
  assumes "fetchEventData P eid w = (Inr ev, w1)" and "e_status ev = RESOLVED"
    and "contracts P ''oracleRegistry''" and "contract_settleEvent P eid = Inr h"
  shows "fst (settleEvent P eid w) = (case patchEvent P eid SETTLED of Inl e \<Rightarrow> Inl e | Inr _ \<Rightarrow> Inr ())
       \<and> (\<exists>es. trace (snd (settleEvent P eid w)) =
             trace w1 @ TxSettleEvent eid # HttpPostDistribute eid #
               (case postDistribute P eid of
                  Inl e \<Rightarrow> [LogError ''Failed to distribute rewards'' e] | Inr _ \<Rightarrow> [])
               @ HttpPatchEvent eid SETTLED (now w1) # es)"
  using assms
  by (simp add: settleEvent_def BlockchainService_settleEvent_def distributeRewards_run
        updateEventState_def cleanupEventData_def cache_delete_def deleteKeys_closed op_defs Let_def
      split: sum.splits)

lemma handle_after_fetch:
  assumes "fetchProposalData P pid w = (Inr pr, w1)" and "patchEvent P (p_eventId pr) DISPUTED = Inr ()"
  shows "handleDisputeDetected P pid d w =
     (Inr (), snd (pauseLivenessMonitoring pid
        (w1\<lparr>cache := filter (\<lambda>e. fst e \<noteq> eventKey (p_eventId pr)) (cache w1),
            trace := trace w1 @ HttpPatchEvent (p_eventId pr) DISPUTED (now w1) #
              CacheDelete (eventKey (p_eventId pr)) # HttpPostNotifyArbitrators pid d #
              (case postNotifyArbitrators P pid d of
                 Inl e \<Rightarrow> [LogError ''Failed to notify arbitrators'' e] | Inr _ \<Rightarrow> [])\<rparr>)))"
  using assms
  by (simp add: handleDisputeDetected_def notifyArbitrators_run updateEventState_def
        cache_delete_def op_defs pauseLivenessMonitoring_def)

lemma pause_trace:
  "\<exists>es. trace (snd (pauseLivenessMonitoring pid w)) = trace w @ es"
  by (simp add: pauseLivenessMonitoring_def removeJobsOf_trace)

text \<open>
  C9. A failure of a best-effort side channel is logged and not propagated:
  \<^verbatim>\<open>distributeRewards\<close> and \<^verbatim>\<open>notifyArbitrators\<close> never throw, and a rejected POST leaves
  the request and one \<^verbatim>\<open>logger.error\<close> line in the trace. Once \<^verbatim>\<open>settleEvent\<close> has reached
  the reward POST, its outcome is that of the PATCH to settled alone, and the PATCH is
  issued whatever the POST answered. Once \<^verbatim>\<open>handleDisputeDetected\<close> has written the
  disputed state, it returns successfully whatever the notification answered, with the
  liveness jobs of the proposal removed.
\<close>

theorem C9_side_channel_failures_swallowed:
  "fst (distributeRewards P eid w) = Inr ()
   \<and> fst (notifyArbitrators P pid d w) = Inr ()
   \<and> (\<forall>e. postDistribute P eid = Inl e \<longrightarrow>
         issued w (snd (distributeRewards P eid w))
           = [HttpPostDistribute eid, LogError ''Failed to distribute rewards'' e])
   \<and> (\<forall>e. postNotifyArbitrators P pid d = Inl e \<longrightarrow>
         issued w (snd (notifyArbitrators P pid d w))
           = [HttpPostNotifyArbitrators pid d, LogError ''Failed to notify arbitrators'' e])
   \<and> (\<forall>ev h. fst (fetchEventData P eid w) = Inr ev \<and> e_status ev = RESOLVED
          \<and> contracts P ''oracleRegistry'' \<and> contract_settleEvent P eid = Inr h \<longrightarrow>
         fst (settleEvent P eid w)
           = (case patchEvent P eid SETTLED of Inl e \<Rightarrow> Inl e | Inr _ \<Rightarrow> Inr ())
         \<and> HttpPatchEvent eid SETTLED (now w) \<in> set (issued w (snd (settleEvent P eid w)))
         \<and> (\<forall>e. postDistribute P eid = Inl e \<longrightarrow>
               LogError ''Failed to distribute rewards'' e \<in> set (issued w (snd (settleEvent P eid w)))))
   \<and> (\<forall>pr. fst (fetchProposalData P pid w) = Inr pr
          \<and> patchEvent P (p_eventId pr) DISPUTED = Inr () \<longrightarrow>
         fst (handleDisputeDetected P pid d w) = Inr ()
         \<and> filter (\<lambda>j. job_data j = pid)
             (getJobs [Delayed, Waiting] (livenessQueue (snd (handleDisputeDetected P pid d w)))) = []
         \<and> (\<forall>e. postNotifyArbitrators P pid d = Inl e \<longrightarrow>
               LogError ''Failed to notify arbitrators'' e
                 \<in> set (issued w (snd (handleDisputeDetected P pid d w)))))"
proof (intro conjI allI impI)
  show "fst (distributeRewards P eid w) = Inr ()"
    by (simp add: distributeRewards_run)
  show "fst (notifyArbitrators P pid d w) = Inr ()"
    by (simp add: notifyArbitrators_run)
  show "issued w (snd (distributeRewards P eid w))
           = [HttpPostDistribute eid, LogError ''Failed to distribute rewards'' e]"
    if "postDistribute P eid = Inl e" for e
    using that by (simp add: distributeRewards_run)
  show "issued w (snd (notifyArbitrators P pid d w))
           = [HttpPostNotifyArbitrators pid d, LogError ''Failed to notify arbitrators'' e]"
    if "postNotifyArbitrators P pid d = Inl e" for e
    using that by (simp add: notifyArbitrators_run)
next
  fix ev h
  assume a: "fst (fetchEventData P eid w) = Inr ev \<and> e_status ev = RESOLVED
          \<and> contracts P ''oracleRegistry'' \<and> contract_settleEvent P eid = Inr h"
  then obtain w1 where f: "fetchEventData P eid w = (Inr ev, w1)"
    by (cases "fetchEventData P eid w") auto
  from fetchEventData_cases [OF f] obtain es1 where t1: "trace w1 = trace w @ es1" and n1: "now w1 = now w"
    by auto
  from settle_after_fetch [OF f] a obtain es where
    r: "fst (settleEvent P eid w) = (case patchEvent P eid SETTLED of Inl e \<Rightarrow> Inl e | Inr _ \<Rightarrow> Inr ())"
    and t: "trace (snd (settleEvent P eid w)) =
             trace w1 @ TxSettleEvent eid # HttpPostDistribute eid #
               (case postDistribute P eid of
                  Inl e \<Rightarrow> [LogError ''Failed to distribute rewards'' e] | Inr _ \<Rightarrow> [])
               @ HttpPatchEvent eid SETTLED (now w1) # es"
    by blast
  have i: "issued w (snd (settleEvent P eid w)) =
             es1 @ TxSettleEvent eid # HttpPostDistribute eid #
               (case postDistribute P eid of
                  Inl e \<Rightarrow> [LogError ''Failed to distribute rewards'' e] | Inr _ \<Rightarrow> [])
               @ HttpPatchEvent eid SETTLED (now w) # es"
    by (simp add: t t1 n1)
  show "fst (settleEvent P eid w) = (case patchEvent P eid SETTLED of Inl e \<Rightarrow> Inl e | Inr _ \<Rightarrow> Inr ())"
    by (rule r)
  show "HttpPatchEvent eid SETTLED (now w) \<in> set (issued w (snd (settleEvent P eid w)))"
    by (simp add: i)
  show "LogError ''Failed to distribute rewards'' e \<in> set (issued w (snd (settleEvent P eid w)))"
    if "postDistribute P eid = Inl e" for e
    using that by (simp add: i)
next
  fix pr
  assume a: "fst (fetchProposalData P pid w) = Inr pr \<and> patchEvent P (p_eventId pr) DISPUTED = Inr ()"
  then obtain w1 where f: "fetchProposalData P pid w = (Inr pr, w1)"
    by (cases "fetchProposalData P pid w") auto
  from fetchProposalData_trace [OF f] obtain es1 where t1: "trace w1 = trace w @ es1"
    by blast
  let ?w3 = "w1\<lparr>cache := filter (\<lambda>e. fst e \<noteq> eventKey (p_eventId pr)) (cache w1),
            trace := trace w1 @ HttpPatchEvent (p_eventId pr) DISPUTED (now w1) #
              CacheDelete (eventKey (p_eventId pr)) # HttpPostNotifyArbitrators pid d #
              (case postNotifyArbitrators P pid d of
                 Inl e \<Rightarrow> [LogError ''Failed to notify arbitrators'' e] | Inr _ \<Rightarrow> [])\<rparr>"
  have h: "handleDisputeDetected P pid d w = (Inr (), snd (pauseLivenessMonitoring pid ?w3))"
    using handle_after_fetch [OF f] a by blast
  obtain es where t: "trace (snd (pauseLivenessMonitoring pid ?w3)) = trace ?w3 @ es"
    using pause_trace by blast
  have i: "issued w (snd (handleDisputeDetected P pid d w)) =
      es1 @ HttpPatchEvent (p_eventId pr) DISPUTED (now w1) #
              CacheDelete (eventKey (p_eventId pr)) # HttpPostNotifyArbitrators pid d #
              (case postNotifyArbitrators P pid d of
                 Inl e \<Rightarrow> [LogError ''Failed to notify arbitrators'' e] | Inr _ \<Rightarrow> []) @ es"
  proof -
    have tt: "trace (snd (handleDisputeDetected P pid d w)) = trace ?w3 @ es"
      using t by (simp only: h snd_conv)
    have "trace ?w3 = trace w @ es1 @ HttpPatchEvent (p_eventId pr) DISPUTED (now w1) #
              CacheDelete (eventKey (p_eventId pr)) # HttpPostNotifyArbitrators pid d #
              (case postNotifyArbitrators P pid d of
                 Inl e \<Rightarrow> [LogError ''Failed to notify arbitrators'' e] | Inr _ \<Rightarrow> [])"
      by (simp add: t1)
    with tt have "trace (snd (handleDisputeDetected P pid d w)) =
        trace w @ (es1 @ HttpPatchEvent (p_eventId pr) DISPUTED (now w1) #
              CacheDelete (eventKey (p_eventId pr)) # HttpPostNotifyArbitrators pid d #
              (case postNotifyArbitrators P pid d of
                 Inl e \<Rightarrow> [LogError ''Failed to notify arbitrators'' e] | Inr _ \<Rightarrow> []) @ es)"
      by simp
    then show ?thesis by (rule issued_append)
  qed
  show "fst (handleDisputeDetected P pid d w) = Inr ()"
    by (simp add: h)
  show "filter (\<lambda>j. job_data j = pid)
             (getJobs [Delayed, Waiting] (livenessQueue (snd (handleDisputeDetected P pid d w)))) = []"
    by (simp add: h pause_clears)
  show "LogError ''Failed to notify arbitrators'' e \<in> set (issued w (snd (handleDisputeDetected P pid d w)))"
    if "postNotifyArbitrators P pid d = Inl e" for e
    using that by (simp add: i)
qed

theorem C9_witness:
  "postDistribute ((okPeers (event1 RESOLVED) proposal1)\<lparr>postDistribute := \<lambda>_. Inl (HttpError ''503'')\<rparr>) ''e1''
     = Inl (HttpError ''503'')
   \<and> fst (settleEvent ((okPeers (event1 RESOLVED) proposal1)\<lparr>postDistribute := \<lambda>_. Inl (HttpError ''503'')\<rparr>)
            ''e1'' (emptyWorld 1000)) = Inr ()
   \<and> LogError ''Failed to distribute rewards'' (HttpError ''503'')
       \<in> set (issued (emptyWorld 1000)
            (snd (settleEvent ((okPeers (event1 RESOLVED) proposal1)\<lparr>postDistribute := \<lambda>_. Inl (HttpError ''503'')\<rparr>)
                   ''e1'' (emptyWorld 1000))))
   \<and> HttpPatchEvent ''e1'' SETTLED 1000
       \<in> set (issued (emptyWorld 1000)
            (snd (settleEvent ((okPeers (event1 RESOLVED) proposal1)\<lparr>postDistribute := \<lambda>_. Inl (HttpError ''503'')\<rparr>)
                   ''e1'' (emptyWorld 1000))))
   \<and> postNotifyArbitrators
        ((okPeers (event1 LIVENESS) proposal1)\<lparr>postNotifyArbitrators := \<lambda>_ _. Inl (HttpError ''503'')\<rparr>)
        ''p1'' ''evidence'' = Inl (HttpError ''503'')
   \<and> fst (handleDisputeDetected
            ((okPeers (event1 LIVENESS) proposal1)\<lparr>postNotifyArbitrators := \<lambda>_ _. Inl (HttpError ''503'')\<rparr>)
            ''p1'' ''evidence'' (emptyWorld 1000)) = Inr ()
   \<and> LogError ''Failed to notify arbitrators'' (HttpError ''503'')
       \<in> set (issued (emptyWorld 1000)
            (snd (handleDisputeDetected
                   ((okPeers (event1 LIVENESS) proposal1)\<lparr>postNotifyArbitrators := \<lambda>_ _. Inl (HttpError ''503'')\<rparr>)
                   ''p1'' ''evidence'' (emptyWorld 1000))))"
proof -
  let ?R = "(okPeers (event1 RESOLVED) proposal1)\<lparr>postDistribute := \<lambda>_. Inl (HttpError ''503'')\<rparr>"
  let ?N = "(okPeers (event1 LIVENESS) proposal1)\<lparr>postNotifyArbitrators := \<lambda>_ _. Inl (HttpError ''503'')\<rparr>"
  have r: "fst (fetchEventData ?R ''e1'' (emptyWorld 1000)) = Inr (event1 RESOLVED)
      \<and> e_status (event1 RESOLVED) = RESOLVED \<and> contracts ?R ''oracleRegistry''
      \<and> contract_settleEvent ?R ''e1'' = Inr ''0x5e''"
    by (simp add: run_defs scenario_defs)
  have pr: "postDistribute ?R ''e1'' = Inl (HttpError ''503'')" "patchEvent ?R ''e1'' SETTLED = Inr ()"
    by (simp_all add: okPeers_def)
  have n: "fst (fetchProposalData ?N ''p1'' (emptyWorld 1000)) = Inr proposal1
      \<and> patchEvent ?N (p_eventId proposal1) DISPUTED = Inr ()"
    by (simp add: run_defs scenario_defs)
  have pn: "postNotifyArbitrators ?N ''p1'' ''evidence'' = Inl (HttpError ''503'')"
    by (simp add: okPeers_def)
  have now: "now (emptyWorld 1000) = 1000"
    by (simp add: emptyWorld_def)
  show ?thesis
    using r pr n pn now
      C9_side_channel_failures_swallowed [of ?R "''e1''" "emptyWorld 1000" "''p1''" "''evidence''"]
      C9_side_channel_failures_swallowed [of ?N "''e1''" "emptyWorld 1000" "''p1''" "''evidence''"]
    by (auto simp del: One_nat_def)
qed

lemma fetchEventData_entry:
  assumes "fetchEventData P eid w = (Inr ev, w1)"
  shows "\<exists>expiry es. map_of (cache w1) (eventKey eid) = Some (JEvent ev, expiry)
           \<and> now w1 = now w \<and> trace w1 = trace w @ es"
  using fetchEventData_cases [OF assms]
  by (auto simp: cache_get_def split: option.splits if_splits)

lemma fetchEventData_hit:
  "cache_get (eventKey eid) w = Some (JEvent ev) \<Longrightarrow> fetchEventData P eid w = (Inr ev, w)"
  by (simp add: fetchEventData_def parse_event_def Let_def)

lemma processEvent_after_fetch:
  assumes "fetchEventData P eid w = (Inr ev, w1)"
  shows "processEvent transitions P eid w =
     (if canTransition transitions (e_status ev) (e_status ev)
      then (Inr \<lparr>eventId = eid, proposalId = None, currentState = e_status ev,
                 metadata = (case e_metadata ev of None \<Rightarrow> [] | Some m \<Rightarrow> m),
                 timestamp = now w1\<rparr>, w1)
      else (Inl (InvalidTransition (e_status ev) (e_status ev)),
            w1\<lparr>trace := trace w1 @ [LogError ''Failed to process event''
                                       (InvalidTransition (e_status ev) (e_status ev))]\<rparr>))"
  using assms
  by (simp add: processEvent_def op_defs Let_def transition_transitions)

text \<open>
  C5, as amended. For an event that \<^verbatim>\<open>fetchEventData\<close> returns, and a second call made
  while the event's cache entry is still live (upstream unchanged, the clock possibly
  advanced to \<open>t2\<close>): \<^verbatim>\<open>processEvent\<close> succeeds exactly when the state machine accepts
  the transition from the event's status to that same status, and then the returned
  context's currentState is the fetched event's status; otherwise it fails with
  InvalidTransition. The second call has the same outcome as the first, its context
  differing only in \<^verbatim>\<open>timestamp\<close> (the time of the call); it is served from the cache,
  issuing no HTTP request and no cache write (only the error line when it fails), and
  leaves the cache as it was.
\<close>

theorem C5_processEvent_replay:
  assumes "fst (fetchEventData P eid w) = Inr ev"
    and "cache_get (eventKey eid) ((snd (processEvent transitions P eid w))\<lparr>now := t2\<rparr>) \<noteq> None"
  shows "fst (processEvent transitions P eid w) =
           (if canTransition transitions (e_status ev) (e_status ev)
            then Inr \<lparr>eventId = eid, proposalId = None, currentState = e_status ev,
                      metadata = (case e_metadata ev of None \<Rightarrow> [] | Some m \<Rightarrow> m),
                      timestamp = now w\<rparr>
            else Inl (InvalidTransition (e_status ev) (e_status ev)))
       \<and> fst (processEvent transitions P eid ((snd (processEvent transitions P eid w))\<lparr>now := t2\<rparr>)) =
           map_sum id (\<lambda>c. c\<lparr>timestamp := t2\<rparr>) (fst (processEvent transitions P eid w))
       \<and> (issued ((snd (processEvent transitions P eid w))\<lparr>now := t2\<rparr>)
             (snd (processEvent transitions P eid ((snd (processEvent transitions P eid w))\<lparr>now := t2\<rparr>)))
           = (if canTransition transitions (e_status ev) (e_status ev) then []
              else [LogError ''Failed to process event'' (InvalidTransition (e_status ev) (e_status ev))]))
       \<and> cache (snd (processEvent transitions P eid ((snd (processEvent transitions P eid w))\<lparr>now := t2\<rparr>)))
           = cache (snd (processEvent transitions P eid w))"
proof -
  obtain w1 where f: "fetchEventData P eid w = (Inr ev, w1)"
    using assms(1) by (cases "fetchEventData P eid w") auto
  from fetchEventData_entry [OF f] obtain expiry es where
    m: "map_of (cache w1) (eventKey eid) = Some (JEvent ev, expiry)" and n: "now w1 = now w"
    by blast
  define w2 where "w2 = (snd (processEvent transitions P eid w))\<lparr>now := t2\<rparr>"
  note p1 = processEvent_after_fetch [OF f]
  have c: "cache w2 = cache w1" and nw2: "now w2 = t2"
    by (simp_all add: w2_def p1)
  have "cache_get (eventKey eid) w2 = Some (JEvent ev)"
    using assms(2) unfolding w2_def [symmetric]
    by (simp add: cache_get_def c m split: if_splits)
  then have f2: "fetchEventData P eid w2 = (Inr ev, w2)"
    by (rule fetchEventData_hit)
  note p2 = processEvent_after_fetch [OF f2]
  show ?thesis
    unfolding w2_def [symmetric]
    by (simp add: p2 p1 n nw2 c)
qed

theorem C5_witness:
  "fst (fetchEventData (okPeers (event1 CREATED) proposal1) ''e1'' (emptyWorld 1000)) = Inr (event1 CREATED)
   \<and> cache_get (eventKey ''e1'')
        ((snd (processEvent transitions (okPeers (event1 CREATED) proposal1) ''e1'' (emptyWorld 1000)))
           \<lparr>now := 1005\<rparr>) = Some (JEvent (event1 CREATED))
   \<and> fst (processEvent transitions (okPeers (event1 CREATED) proposal1) ''e1'' (emptyWorld 1000))
       = Inr (context1 CREATED 1000)
   \<and> fst (processEvent transitions (okPeers (event1 CREATED) proposal1) ''e1''
           ((snd (processEvent transitions (okPeers (event1 CREATED) proposal1) ''e1'' (emptyWorld 1000)))
              \<lparr>now := 1005\<rparr>))
       = Inr (context1 CREATED 1005)
   \<and> issued ((snd (processEvent transitions (okPeers (event1 CREATED) proposal1) ''e1'' (emptyWorld 1000)))
              \<lparr>now := 1005\<rparr>)
        (snd (processEvent transitions (okPeers (event1 CREATED) proposal1) ''e1''
           ((snd (processEvent transitions (okPeers (event1 CREATED) proposal1) ''e1'' (emptyWorld 1000)))
              \<lparr>now := 1005\<rparr>))) = []"
proof -
  let ?P = "okPeers (event1 CREATED) proposal1"
  have f: "fst (fetchEventData ?P ''e1'' (emptyWorld 1000)) = Inr (event1 CREATED)"
    by (simp add: run_defs scenario_defs)
  have l: "cache_get (eventKey ''e1'')
        ((snd (processEvent transitions ?P ''e1'' (emptyWorld 1000)))\<lparr>now := 1005\<rparr>)
        = Some (JEvent (event1 CREATED))"
    by (simp add: processEvent_def transition_transitions canTransition_transitions
          run_defs scenario_defs)
  then have l': "cache_get (eventKey ''e1'')
        ((snd (processEvent transitions ?P ''e1'' (emptyWorld 1000)))\<lparr>now := 1005\<rparr>) \<noteq> None"
    by simp
  have c: "canTransition transitions (e_status (event1 CREATED)) (e_status (event1 CREATED))"
    by (simp add: canTransition_transitions event1_def)
  show ?thesis
    using f l c C5_processEvent_replay [OF f l']
    by (simp add: context1_def event1_def emptyWorld_def)
qed

text \<open>
  The claim C5 as stated is false: for an event in status settled \<^verbatim>\<open>processEvent\<close> fails
  (the table has no entry under settled), and for an event in status created two
  back-to-back calls, at 1000 ms and at 1005 ms, return contexts that differ in
  \<^verbatim>\<open>timestamp\<close>.
\<close>

theorem C5_counterexample:
  "fst (processEvent transitions (okPeers (event1 SETTLED) proposal1) ''e1'' (emptyWorld 1000))
     = Inl (InvalidTransition SETTLED SETTLED)
   \<and> fst (processEvent transitions (okPeers (event1 CREATED) proposal1) ''e1'' (emptyWorld 1000))
     = Inr (context1 CREATED 1000)
   \<and> fst (processEvent transitions (okPeers (event1 CREATED) proposal1) ''e1''
           ((snd (processEvent transitions (okPeers (event1 CREATED) proposal1) ''e1'' (emptyWorld 1000)))
              \<lparr>now := 1005\<rparr>))
     = Inr (context1 CREATED 1005)
   \<and> context1 CREATED 1000 \<noteq> context1 CREATED 1005"
  by (simp add: processEvent_def transition_transitions canTransition_transitions
        run_defs scenario_defs context1_def)

text \<open>
  C7. The claim: after \<^verbatim>\<open>settleEvent\<close> succeeds, the event's cache key is a miss and no
  proposal cache entry of that event remains. The first half holds. The second does not:
  \<^verbatim>\<open>fetchProposalData\<close> caches proposal p1 of event e1 under \<^verbatim>\<open>proposal:p1\<close>, the cleanup
  scans for \<^verbatim>\<open>proposal:*:e1\<close>, which that key does not match, and the entry is still
  readable after the event was settled.
\<close>

theorem C7_proposal_entry_survives_cleanup:
  "cache_get (proposalKey ''p1'') cachedProposalWorld = Some (JProposal proposal1)
   \<and> p_eventId proposal1 = ''e1''
   \<and> fst (settleEvent (okPeers (event1 RESOLVED) proposal1) ''e1'' cachedProposalWorld) = Inr ()
   \<and> cache_get (eventKey ''e1'')
        (snd (settleEvent (okPeers (event1 RESOLVED) proposal1) ''e1'' cachedProposalWorld)) = None
   \<and> cache_get (proposalKey ''p1'')
        (snd (settleEvent (okPeers (event1 RESOLVED) proposal1) ''e1'' cachedProposalWorld))
       = Some (JProposal proposal1)
   \<and> cache_keys (proposalPattern ''e1'') cachedProposalWorld = []
   \<and> issued cachedProposalWorld
        (snd (settleEvent (okPeers (event1 RESOLVED) proposal1) ''e1'' cachedProposalWorld))
       = [HttpGetEvent ''e1'', CacheSet (eventKey ''e1'') (JEvent (event1 RESOLVED)) 300,
          TxSettleEvent ''e1'', HttpPostDistribute ''e1'', HttpPatchEvent ''e1'' SETTLED 1000,
          CacheDelete (eventKey ''e1''), CacheDelete (eventKey ''e1'')]"
  by (simp add: cachedProposalWorld_def settleEvent_def cleanupEventData_def run_defs scenario_defs)

section \<open>Properties of the chain indexer\<close>

lemma handleEventCreated_run:
  "handleEventCreated C ev s = s\<lparr>itrace := itrace s @ handleEventCreated_effects C ev\<rparr>"
  by (simp add: handleEventCreated_def handleEventCreated_effects_def split: sum.splits)

lemma handleEvents_run:
  "handleEvents C evs s = s\<lparr>itrace := itrace s @ concat (map (handleEventCreated_effects C) evs)\<rparr>"
  by (induction evs arbitrary: s) (simp_all add: handleEventCreated_run)

lemma indexNewBlocks_tick:
  assumes "getBlockNumber C = Inr head"
  shows "let base = (if lastIndexedBlock s = 0 then head - 100 else lastIndexedBlock s) in
         (head \<le> base \<longrightarrow> indexNewBlocks C s = s\<lparr>lastIndexedBlock := base\<rparr>)
       \<and> (base < head \<and> \<not> hasOracleRegistry C \<longrightarrow> indexNewBlocks C s = s\<lparr>lastIndexedBlock := head\<rparr>)
       \<and> (base < head \<and> hasOracleRegistry C \<longrightarrow>
            (\<forall>logs. queryFilter C (base + 1) head = Inr logs \<longrightarrow>
               indexNewBlocks C s =
                 \<lparr>lastIndexedBlock = head,
                  itrace = itrace s @ QueryEventCreated (base + 1) head # concat (map (handleEventCreated_effects C) logs)\<rparr>)
          \<and> (\<forall>e. queryFilter C (base + 1) head = Inl e \<longrightarrow>
               indexNewBlocks C s =
                 \<lparr>lastIndexedBlock = base,
                  itrace = itrace s @ [QueryEventCreated (base + 1) head,
                                       IndexerLogError ''Indexing error'' e]\<rparr>))"
  using assms
  by (auto simp: indexNewBlocks_def processBlocks_def handleEvents_run Let_def)

lemma next_tick_queries:
  assumes "getBlockNumber C' = Inr head'" and "hasOracleRegistry C'"
    and "lastIndexedBlock s1 \<noteq> 0" and "lastIndexedBlock s1 < head'"
  shows "\<exists>rest. itrace (indexNewBlocks C' s1) =
           itrace s1 @ QueryEventCreated (lastIndexedBlock s1 + 1) head' # rest"
  using assms
  by (auto simp: indexNewBlocks_def processBlocks_def handleEvents_run Let_def split: sum.splits)

lemma next_tick_reseeds:
  assumes "getBlockNumber C' = Inr head'" and "hasOracleRegistry C'" and "lastIndexedBlock s1 = 0"
  shows "\<exists>rest. itrace (indexNewBlocks C' s1) =
           itrace s1 @ QueryEventCreated (head' - 99) head' # rest"
  using assms
  by (auto simp: indexNewBlocks_def processBlocks_def handleEvents_run Let_def split: sum.splits)

lemma next_tick_idle:
  assumes "getBlockNumber C' = Inr head'" and "lastIndexedBlock s1 \<noteq> 0" and "head' \<le> lastIndexedBlock s1"
  shows "indexNewBlocks C' s1 = s1"
  using assms by (simp add: indexNewBlocks_def)

text \<open>
  C8, as amended. For a tick whose head query answers \<open>head\<close>, with \<open>base\<close> the value of
  \<^verbatim>\<open>lastIndexedBlock\<close> after seeding (head - 100 on first run, when the field is 0):
  nothing is processed when head is not above base; otherwise, with the oracle registry
  loaded, exactly the range from base + 1 to head is queried, every extracted log is
  posted in order, and \<^verbatim>\<open>lastIndexedBlock\<close> is advanced to head after the whole batch.

  A failure of the log query leaves \<^verbatim>\<open>lastIndexedBlock\<close> at base. The next tick (head
  \<open>head'\<close>, registry loaded) then queries from base + 1 again when base is not 0 and
  \<open>head'\<close> is above it; when base is 0 the next tick takes itself for a first run and
  queries from \<open>head'\<close> - 99.

  A failure to post a log is caught and logged by \<^verbatim>\<open>handleEventCreated\<close>: the remaining
  logs are still posted and \<^verbatim>\<open>lastIndexedBlock\<close> is advanced to head all the same. When head
  is not 0, the next tick queries from head + 1 if \<open>head'\<close> is above head and does
  nothing otherwise: the range is not processed again.
\<close>

theorem C8_indexer_tick:
  assumes "getBlockNumber C = Inr head"
  shows "let base = (if lastIndexedBlock s = 0 then head - 100 else lastIndexedBlock s) in
         (head \<le> base \<longrightarrow> indexNewBlocks C s = s\<lparr>lastIndexedBlock := base\<rparr>)
       \<and> (base < head \<and> \<not> hasOracleRegistry C \<longrightarrow> indexNewBlocks C s = s\<lparr>lastIndexedBlock := head\<rparr>)
       \<and> (base < head \<and> hasOracleRegistry C \<longrightarrow>
            (\<forall>logs. queryFilter C (base + 1) head = Inr logs \<longrightarrow>
               indexNewBlocks C s =
                 \<lparr>lastIndexedBlock = head,
                  itrace = itrace s @ QueryEventCreated (base + 1) head # concat (map (handleEventCreated_effects C) logs)\<rparr>
               \<and> (\<forall>C' head'. getBlockNumber C' = Inr head' \<and> hasOracleRegistry C' \<and> head \<noteq> 0 \<longrightarrow>
                     (head < head' \<longrightarrow>
                        (\<exists>rest. itrace (indexNewBlocks C' (indexNewBlocks C s)) =
                           itrace (indexNewBlocks C s) @ QueryEventCreated (head + 1) head' # rest))
                   \<and> (head' \<le> head \<longrightarrow>
                        indexNewBlocks C' (indexNewBlocks C s) = indexNewBlocks C s)))
          \<and> (\<forall>e. queryFilter C (base + 1) head = Inl e \<longrightarrow>
               indexNewBlocks C s =
                 \<lparr>lastIndexedBlock = base,
                  itrace = itrace s @ [QueryEventCreated (base + 1) head,
                                       IndexerLogError ''Indexing error'' e]\<rparr>
               \<and> (\<forall>C' head'. getBlockNumber C' = Inr head' \<and> hasOracleRegistry C' \<longrightarrow>
                     (base \<noteq> 0 \<and> base < head' \<longrightarrow>
                        (\<exists>rest. itrace (indexNewBlocks C' (indexNewBlocks C s)) =
                           itrace (indexNewBlocks C s) @ QueryEventCreated (base + 1) head' # rest))
                   \<and> (base = 0 \<longrightarrow>
                        (\<exists>rest. itrace (indexNewBlocks C' (indexNewBlocks C s)) =
                           itrace (indexNewBlocks C s) @ QueryEventCreated (head' - 99) head' # rest)))))"
proof -
  define base where "base = (if lastIndexedBlock s = 0 then head - 100 else lastIndexedBlock s)"
  note one = indexNewBlocks_tick [OF assms, of s, unfolded Let_def, folded base_def]
  have ok: "(\<forall>C' head'. getBlockNumber C' = Inr head' \<and> hasOracleRegistry C' \<and> head \<noteq> 0 \<longrightarrow>
                     (head < head' \<longrightarrow>
                        (\<exists>rest. itrace (indexNewBlocks C' (indexNewBlocks C s)) =
                           itrace (indexNewBlocks C s) @ QueryEventCreated (head + 1) head' # rest))
                   \<and> (head' \<le> head \<longrightarrow>
                        indexNewBlocks C' (indexNewBlocks C s) = indexNewBlocks C s))"
    if "base < head" "hasOracleRegistry C" "queryFilter C (base + 1) head = Inr logs" for logs
  proof -
    have l: "lastIndexedBlock (indexNewBlocks C s) = head"
      using one that by simp
    show ?thesis
      using next_tick_queries [of _ _ "indexNewBlocks C s"] next_tick_idle [of _ _ "indexNewBlocks C s"]
      by (auto simp: l)
  qed
  have bad: "(\<forall>C' head'. getBlockNumber C' = Inr head' \<and> hasOracleRegistry C' \<longrightarrow>
                     (base \<noteq> 0 \<and> base < head' \<longrightarrow>
                        (\<exists>rest. itrace (indexNewBlocks C' (indexNewBlocks C s)) =
                           itrace (indexNewBlocks C s) @ QueryEventCreated (base + 1) head' # rest))
                   \<and> (base = 0 \<longrightarrow>
                        (\<exists>rest. itrace (indexNewBlocks C' (indexNewBlocks C s)) =
                           itrace (indexNewBlocks C s) @ QueryEventCreated (head' - 99) head' # rest)))"
    if "base < head" "hasOracleRegistry C" "queryFilter C (base + 1) head = Inl e" for e
  proof -
    have l: "lastIndexedBlock (indexNewBlocks C s) = base"
      using one that by simp
    show ?thesis
      using next_tick_queries [of _ _ "indexNewBlocks C s"] next_tick_reseeds [of _ _ "indexNewBlocks C s"]
      by (auto simp: l)
  qed
  show ?thesis
    unfolding Let_def base_def [symmetric]
    using one ok bad by blast
qed

theorem C8_witness:
  "getBlockNumber (peerDownChain 1000) = Inr 1000
   \<and> indexNewBlocks (peerDownChain 1000) \<lparr>lastIndexedBlock = 0, itrace = []\<rparr>
       = \<lparr>lastIndexedBlock = 1000,
          itrace = [QueryEventCreated 901 1000, PostBlockchainEvent log1,
                    IndexerLogError ''Failed to handle event'' (HttpError ''503'')]\<rparr>
   \<and> indexNewBlocks (queryDownChain 1000) \<lparr>lastIndexedBlock = 900, itrace = []\<rparr>
       = \<lparr>lastIndexedBlock = 900,
          itrace = [QueryEventCreated 901 1000,
                    IndexerLogError ''Indexing error'' (ChainError ''timeout'')]\<rparr>
   \<and> (\<exists>rest. itrace (indexNewBlocks (peerDownChain 1003)
                  (indexNewBlocks (queryDownChain 1000) \<lparr>lastIndexedBlock = 900, itrace = []\<rparr>))
          = itrace (indexNewBlocks (queryDownChain 1000) \<lparr>lastIndexedBlock = 900, itrace = []\<rparr>)
            @ QueryEventCreated 901 1003 # rest)
   \<and> indexNewBlocks (queryDownChain 100) \<lparr>lastIndexedBlock = 0, itrace = []\<rparr>
       = \<lparr>lastIndexedBlock = 0,
          itrace = [QueryEventCreated 1 100,
                    IndexerLogError ''Indexing error'' (ChainError ''timeout'')]\<rparr>
   \<and> (\<exists>rest. itrace (indexNewBlocks (peerDownChain 105)
                  (indexNewBlocks (queryDownChain 100) \<lparr>lastIndexedBlock = 0, itrace = []\<rparr>))
          = itrace (indexNewBlocks (queryDownChain 100) \<lparr>lastIndexedBlock = 0, itrace = []\<rparr>)
            @ QueryEventCreated 6 105 # rest)
   \<and> (\<exists>rest. itrace (indexNewBlocks (peerDownChain 1003)
                  (indexNewBlocks (peerDownChain 1000) \<lparr>lastIndexedBlock = 900, itrace = []\<rparr>))
          = itrace (indexNewBlocks (peerDownChain 1000) \<lparr>lastIndexedBlock = 900, itrace = []\<rparr>)
            @ QueryEventCreated 1001 1003 # rest)
   \<and> indexNewBlocks (peerDownChain 1000) \<lparr>lastIndexedBlock = 1000, itrace = []\<rparr>
       = \<lparr>lastIndexedBlock = 1000, itrace = []\<rparr>"
proof -
  have h: "getBlockNumber (peerDownChain 1000) = Inr 1000"
    by (simp add: peerDownChain_def)
  have h3: "getBlockNumber (peerDownChain 1003) = Inr 1003 \<and> hasOracleRegistry (peerDownChain 1003)"
    by (simp add: peerDownChain_def)
  have h5: "getBlockNumber (peerDownChain 105) = Inr 105 \<and> hasOracleRegistry (peerDownChain 105)"
    by (simp add: peerDownChain_def)
  have q: "getBlockNumber (queryDownChain 1000) = Inr 1000"
    by (simp add: queryDownChain_def peerDownChain_def)
  have q1: "getBlockNumber (queryDownChain 100) = Inr 100"
    by (simp add: queryDownChain_def peerDownChain_def)
  have facts:
    "hasOracleRegistry (peerDownChain 1000)"
    "hasOracleRegistry (queryDownChain 1000)" "hasOracleRegistry (queryDownChain 100)"
    "queryFilter (peerDownChain 1000) 901 1000 = Inr [log1]"
    "queryFilter (queryDownChain 1000) 901 1000 = Inl (ChainError ''timeout'')"
    "queryFilter (queryDownChain 100) 1 100 = Inl (ChainError ''timeout'')"
    "handleEventCreated_effects (peerDownChain 1000) log1
       = [PostBlockchainEvent log1, IndexerLogError ''Failed to handle event'' (HttpError ''503'')]"
    by (simp_all add: queryDownChain_def peerDownChain_def handleEventCreated_effects_def)
  have lt: "(900::int) < 1003" "(1000::int) < 1003" "(1000::int) \<noteq> 0"
    by simp_all
  note t0 = C8_indexer_tick [OF h, of "\<lparr>lastIndexedBlock = 0, itrace = []\<rparr>", unfolded Let_def, simplified]
  note t1 = C8_indexer_tick [OF q, of "\<lparr>lastIndexedBlock = 900, itrace = []\<rparr>", unfolded Let_def, simplified]
  note t2 = C8_indexer_tick [OF q1, of "\<lparr>lastIndexedBlock = 0, itrace = []\<rparr>", unfolded Let_def, simplified]
  note t3 = C8_indexer_tick [OF h, of "\<lparr>lastIndexedBlock = 900, itrace = []\<rparr>", unfolded Let_def, simplified]
  note t4 = C8_indexer_tick [OF h, of "\<lparr>lastIndexedBlock = 1000, itrace = []\<rparr>", unfolded Let_def, simplified]
  have a: "indexNewBlocks (peerDownChain 1000) \<lparr>lastIndexedBlock = 0, itrace = []\<rparr>
       = \<lparr>lastIndexedBlock = 1000,
          itrace = [QueryEventCreated 901 1000, PostBlockchainEvent log1,
                    IndexerLogError ''Failed to handle event'' (HttpError ''503'')]\<rparr>"
    using t0 facts by simp
  have b: "indexNewBlocks (queryDownChain 1000) \<lparr>lastIndexedBlock = 900, itrace = []\<rparr>
       = \<lparr>lastIndexedBlock = 900,
          itrace = [QueryEventCreated 901 1000,
                    IndexerLogError ''Indexing error'' (ChainError ''timeout'')]\<rparr>
     \<and> (\<exists>rest. itrace (indexNewBlocks (peerDownChain 1003)
                  (indexNewBlocks (queryDownChain 1000) \<lparr>lastIndexedBlock = 900, itrace = []\<rparr>))
          = itrace (indexNewBlocks (queryDownChain 1000) \<lparr>lastIndexedBlock = 900, itrace = []\<rparr>)
            @ QueryEventCreated 901 1003 # rest)"
    using t1 facts h3 lt by blast
  have c1: "indexNewBlocks (queryDownChain 100) \<lparr>lastIndexedBlock = 0, itrace = []\<rparr>
       = \<lparr>lastIndexedBlock = 0,
          itrace = [QueryEventCreated 1 100,
                    IndexerLogError ''Indexing error'' (ChainError ''timeout'')]\<rparr>"
    using t2 facts by blast
  have "\<exists>rest. itrace (indexNewBlocks (peerDownChain 105)
                  (indexNewBlocks (queryDownChain 100) \<lparr>lastIndexedBlock = 0, itrace = []\<rparr>))
          = itrace (indexNewBlocks (queryDownChain 100) \<lparr>lastIndexedBlock = 0, itrace = []\<rparr>)
            @ QueryEventCreated (105 - 99) 105 # rest"
    using t2 facts h5 by blast
  then have c2: "\<exists>rest. itrace (indexNewBlocks (peerDownChain 105)
                  (indexNewBlocks (queryDownChain 100) \<lparr>lastIndexedBlock = 0, itrace = []\<rparr>))
          = itrace (indexNewBlocks (queryDownChain 100) \<lparr>lastIndexedBlock = 0, itrace = []\<rparr>)
            @ QueryEventCreated 6 105 # rest"
    by simp
  note c = conjI [OF c1 c2]
  have d: "\<exists>rest. itrace (indexNewBlocks (peerDownChain 1003)
                  (indexNewBlocks (peerDownChain 1000) \<lparr>lastIndexedBlock = 900, itrace = []\<rparr>))
          = itrace (indexNewBlocks (peerDownChain 1000) \<lparr>lastIndexedBlock = 900, itrace = []\<rparr>)
            @ QueryEventCreated 1001 1003 # rest"
    using t3 facts h3 lt by blast
  have e: "indexNewBlocks (peerDownChain 1000) \<lparr>lastIndexedBlock = 1000, itrace = []\<rparr>
       = \<lparr>lastIndexedBlock = 1000, itrace = []\<rparr>"
    using t4 by simp
  from h a b c d e show ?thesis by blast
qed

text \<open>
  The claim C8 as stated is false in its last part: with \<^verbatim>\<open>lastIndexedBlock\<close> = 900,
  head = 1000 and a peer that rejects the POST of the one extracted log, the tick still
  advances \<^verbatim>\<open>lastIndexedBlock\<close> to 1000, and the next tick (head = 1003) queries the range
  from 1001 to 1003: the range from 901 to 1000 is not processed again.
\<close>

theorem C8_counterexample:
  "postBlockchainEvent (peerDownChain 1000) log1 = Inl (HttpError ''503'')
   \<and> indexNewBlocks (peerDownChain 1000) \<lparr>lastIndexedBlock = 900, itrace = []\<rparr>
       = \<lparr>lastIndexedBlock = 1000,
          itrace = [QueryEventCreated 901 1000, PostBlockchainEvent log1,
                    IndexerLogError ''Failed to handle event'' (HttpError ''503'')]\<rparr>
   \<and> indexNewBlocks (peerDownChain 1003)
        (indexNewBlocks (peerDownChain 1000) \<lparr>lastIndexedBlock = 900, itrace = []\<rparr>)
       = \<lparr>lastIndexedBlock = 1003,
          itrace = [QueryEventCreated 901 1000, PostBlockchainEvent log1,
                    IndexerLogError ''Failed to handle event'' (HttpError ''503''),
                    QueryEventCreated 1001 1003]\<rparr>"
  by (simp add: indexNewBlocks_def processBlocks_def handleEventCreated_def peerDownChain_def Let_def)

end
